theory Spec2Isabelle
  imports Complex_Main "HOL-Library.Product_Lexorder"
begin

section \<open>Numbers and arrays\<close>

text \<open>
  The entries of a numpy float array are modelled as the reals extended with the two
  infinities and NaN. Arithmetic on finite values is exact: rounding, overflow and the
  sign of zero are outside the model. Division by zero gives an infinity or NaN, as numpy
  does (with a warning, not an exception); a comparison with NaN is false.
\<close>

datatype npfloat = Fin real | PInf | NInf | NaN

instantiation npfloat :: "{plus, minus, uminus, times, inverse, ord}"
begin

fun plus_npfloat :: "npfloat \<Rightarrow> npfloat \<Rightarrow> npfloat" where
  "NaN + _ = NaN"
| "_ + NaN = NaN"
| "Fin a + Fin b = Fin (a + b)"
| "PInf + NInf = NaN"
| "NInf + PInf = NaN"
| "PInf + _ = PInf"
| "_ + PInf = PInf"
| "NInf + _ = NInf"
| "_ + NInf = NInf"

fun uminus_npfloat :: "npfloat \<Rightarrow> npfloat" where
  "- Fin a = Fin (- a)"
| "- PInf = NInf"
| "- NInf = PInf"
| "- NaN = NaN"

definition minus_npfloat :: "npfloat \<Rightarrow> npfloat \<Rightarrow> npfloat" where
  "a - b = a + (- (b :: npfloat))"

fun times_npfloat :: "npfloat \<Rightarrow> npfloat \<Rightarrow> npfloat" where
  "NaN * _ = NaN"
| "_ * NaN = NaN"
| "Fin a * Fin b = Fin (a * b)"
| "Fin a * PInf = (if a = 0 then NaN else if 0 < a then PInf else NInf)"
| "Fin a * NInf = (if a = 0 then NaN else if 0 < a then NInf else PInf)"
| "PInf * Fin b = (if b = 0 then NaN else if 0 < b then PInf else NInf)"
| "NInf * Fin b = (if b = 0 then NaN else if 0 < b then NInf else PInf)"
| "PInf * PInf = PInf"
| "PInf * NInf = NInf"
| "NInf * PInf = NInf"
| "NInf * NInf = PInf"

fun divide_npfloat :: "npfloat \<Rightarrow> npfloat \<Rightarrow> npfloat" where
  "divide_npfloat NaN _ = NaN"
| "divide_npfloat _ NaN = NaN"
| "divide_npfloat (Fin a) (Fin b) =
     (if b = 0 then (if a = 0 then NaN else if 0 < a then PInf else NInf) else Fin (a / b))"
| "divide_npfloat (Fin a) PInf = Fin 0"
| "divide_npfloat (Fin a) NInf = Fin 0"
| "divide_npfloat PInf (Fin b) = (if b < 0 then NInf else PInf)"
| "divide_npfloat NInf (Fin b) = (if b < 0 then PInf else NInf)"
| "divide_npfloat _ _ = NaN"

fun inverse_npfloat :: "npfloat \<Rightarrow> npfloat" where
  "inverse_npfloat (Fin a) = (if a = 0 then PInf else Fin (1 / a))"
| "inverse_npfloat PInf = Fin 0"
| "inverse_npfloat NInf = Fin 0"
| "inverse_npfloat NaN = NaN"

fun less_npfloat :: "npfloat \<Rightarrow> npfloat \<Rightarrow> bool" where
  "Fin a < Fin b = (a < b)"
| "Fin a < PInf = True"
| "NInf < Fin b = True"
| "NInf < PInf = True"
| "(_ :: npfloat) < _ = False"

definition less_eq_npfloat :: "npfloat \<Rightarrow> npfloat \<Rightarrow> bool" where
  "a \<le> b = (a < b \<or> (a = b \<and> a \<noteq> NaN))" for a b :: npfloat

instance ..

end

fun fsqrt :: "npfloat \<Rightarrow> npfloat" where
  "fsqrt (Fin a) = (if a < 0 then NaN else Fin (sqrt a))"
| "fsqrt PInf = PInf"
| "fsqrt NInf = NaN"
| "fsqrt NaN = NaN"

text \<open>\<open>np.maximum\<close>: the larger of two entries, NaN if either is NaN.\<close>

fun maximum :: "npfloat \<Rightarrow> npfloat \<Rightarrow> npfloat" where
  "maximum NaN _ = NaN"
| "maximum _ NaN = NaN"
| "maximum a b = (if a < b then b else a)"

text \<open>\<open>np.sum\<close> of a one-dimensional array; the sum of the empty array is 0.\<close>

definition fsum :: "npfloat list \<Rightarrow> npfloat" where
  "fsum xs = foldl (+) (Fin 0) xs"

datatype error = ValueError | IndexError | ZeroDivisionError | QhullError

text \<open>\<open>np.max\<close> of a one-dimensional array raises ValueError on the empty array.\<close>

fun np_max :: "npfloat list \<Rightarrow> error + npfloat" where
  "np_max [] = Inl ValueError"
| "np_max (x # xs) = Inr (foldl maximum x xs)"

type_synonym point = "npfloat list"

text \<open>
  Modelled from the spec: \<open>dist\<close> of \<open>pyeit/mesh/utils.py\<close> is not among the sources;
  the spec describes it as the Euclidean length of each vector of a batch. \<open>dist1\<close> is
  the length of one row; \<open>dist_rows\<close> is \<open>dist\<close> on a batch, named apart from the metric
  \<open>dist\<close> of HOL.
\<close>

definition dist1 :: "point \<Rightarrow> npfloat" where
  "dist1 v = fsqrt (fsum (map (\<lambda>x. x * x) v))"

definition dist_rows :: "point list \<Rightarrow> npfloat list" where
  "dist_rows vs = map dist1 vs"

section \<open>Errors and indexing\<close>

text \<open>An exception of the Python code is the left summand of the result.\<close>

definition bindE :: "error + 'a \<Rightarrow> ('a \<Rightarrow> error + 'b) \<Rightarrow> error + 'b" where
  "bindE r f = (case r of Inl e \<Rightarrow> Inl e | Inr v \<Rightarrow> f v)"

text \<open>\<open>xs[i]\<close> and \<open>b[i][j]\<close> on Python lists, \<open>a[ix]\<close> with an index array.\<close>

definition item :: "'a list \<Rightarrow> nat \<Rightarrow> error + 'a" where
  "item xs i = (if i < length xs then Inr (xs ! i) else Inl IndexError)"

definition item2 :: "'a list list \<Rightarrow> nat \<Rightarrow> nat \<Rightarrow> error + 'a" where
  "item2 b i j = bindE (item b i) (\<lambda>r. item r j)"

definition rows_at :: "'a list \<Rightarrow> nat list \<Rightarrow> error + 'a list" where
  "rows_at xs ix =
     (if \<forall>i\<in>set ix. i < length xs then Inr (map (\<lambda>i. xs ! i) ix) else Inl IndexError)"

text \<open>\<open>a[mask]\<close> with a boolean mask as long as \<open>a\<close>.\<close>

definition select :: "bool list \<Rightarrow> 'a list \<Rightarrow> 'a list" where
  "select msk xs = map fst (filter snd (zip xs msk))"

definition vadd :: "point \<Rightarrow> point \<Rightarrow> point" where
  "vadd a b = map2 (+) a b"

definition vsub :: "point \<Rightarrow> point \<Rightarrow> point" where
  "vsub a b = map2 (-) a b"

text \<open>\<open>np.mean(rows, axis=0)\<close> of a list of rows of one length.\<close>

definition vmean :: "point list \<Rightarrow> point" where
  "vmean vs = map (\<lambda>c. fsum c / Fin (real (length vs))) (transpose vs)"

text \<open>\<open>np.unique\<close> and \<open>np.setdiff1d\<close>: sorted, without repetitions.\<close>

definition np_unique :: "'a::linorder list \<Rightarrow> 'a list" where
  "np_unique xs = sort (remdups xs)"

definition setdiff1d :: "nat list \<Rightarrow> nat list \<Rightarrow> nat list" where
  "setdiff1d a b = np_unique [x \<leftarrow> a. x \<notin> set b]"

text \<open>
  \<open>np.arange(start, stop, step)\<close> on floats: \<open>ceil((stop - start) / step)\<close> entries
  \<open>start + i * step\<close>. A zero step raises (ZeroDivisionError on Python floats), and so does
  a length that is not a finite number. The quotient here is exact; numpy rounds it before
  it takes the ceiling, so its array can have one entry more where the exact quotient is a
  whole number or just below one.
\<close>

definition arange :: "npfloat \<Rightarrow> npfloat \<Rightarrow> npfloat \<Rightarrow> error + npfloat list" where
  "arange start stop step =
     (if step = Fin 0 then Inl ZeroDivisionError
      else case (stop - start) / step of
             Fin q \<Rightarrow> Inr (map (\<lambda>i. start + Fin (real i) * step) [0..<nat \<lceil>q\<rceil>])
           | _ \<Rightarrow> Inl ValueError)"

text \<open>
  \<open>np.shape(bbox)[1]\<close> for a list of rows: the row length. The empty list has the shape
  \<open>(0,)\<close>, which has no entry 1; rows of different lengths do not make an array.
\<close>

definition shape1 :: "'a list list \<Rightarrow> error + nat" where
  "shape1 b =
     (case b of
        [] \<Rightarrow> Inl IndexError
      | r # rs \<Rightarrow> if \<forall>r'\<in>set rs. length r' = length r then Inr (length r) else Inl ValueError)"

text \<open>\<open>list(combinations(range(n), 2))\<close>\<close>

definition combinations2 :: "nat \<Rightarrow> (nat \<times> nat) list" where
  "combinations2 n = concat (map (\<lambda>i. map (\<lambda>j. (i, j)) [Suc i..<n]) [0..<n])"

section \<open>The initial lattice\<close>

definition bbox2d :: "npfloat \<Rightarrow> npfloat list list \<Rightarrow> error + point list" where
  "bbox2d h bbox =
     bindE (item2 bbox 0 0) (\<lambda>x0. bindE (item2 bbox 1 0) (\<lambda>x1.
     bindE (arange x0 x1 h) (\<lambda>xs.
     bindE (item2 bbox 0 1) (\<lambda>y0. bindE (item2 bbox 1 1) (\<lambda>y1.
     bindE (arange y0 y1 (h * fsqrt (Fin 3) / Fin 2)) (\<lambda>ys.
     Inr (concat (map (\<lambda>i. map (\<lambda>x. [if odd i then x + h / Fin 2 else x, ys ! i]) xs)
                      [0..<length ys]))))))))"

definition bbox3d :: "npfloat \<Rightarrow> npfloat list list \<Rightarrow> error + point list" where
  "bbox3d h bbox =
     bindE (item2 bbox 0 0) (\<lambda>x0. bindE (item2 bbox 1 0) (\<lambda>x1.
     bindE (arange x0 x1 h) (\<lambda>xs.
     bindE (item2 bbox 0 1) (\<lambda>y0. bindE (item2 bbox 1 1) (\<lambda>y1.
     bindE (arange y0 y1 h) (\<lambda>ys.
     bindE (item2 bbox 0 2) (\<lambda>z0. bindE (item2 bbox 1 2) (\<lambda>z1.
     bindE (arange z0 z1 h) (\<lambda>zs.
     Inr (concat (map (\<lambda>y. concat (map (\<lambda>x. map (\<lambda>z. [x, y, z]) zs) xs)) ys)))))))))))"

fun remove_duplicate_nodes :: "point list \<Rightarrow> point list \<Rightarrow> npfloat \<Rightarrow> point list" where
  "remove_duplicate_nodes ps [] g = ps"
| "remove_duplicate_nodes ps (row # rows) g =
     remove_duplicate_nodes [q \<leftarrow> ps. g < dist1 (vsub q row)] rows g"

section \<open>The session: class DISTMESH\<close>

text \<open>
  The distance field \<open>fd\<close> and the density field \<open>fh\<close> are the caller's functions. The
  spec takes them as pure and evaluable on batches and at single points, so the model
  has them as functions of one point and evaluates a batch row by row.

  Two collaborators are parameters of the model. The triangulation oracle
  (\<open>scipy.spatial.Delaunay(pts).simplices\<close>) is a function from the points to an error or
  a list of simplices. \<open>edge_project\<close> of \<open>pyeit/mesh/utils.py\<close> is not among the
  sources; it is a function from the distance field and a batch of points to one
  displacement per point. The random source \<open>np.random.rand\<close> is the sequence of its
  samples.

  An array of shape \<open>(n, d)\<close> is the list of its \<open>n\<close> rows, so an empty array does not
  record \<open>d\<close>. Where two arrays meet in an elementwise or in-place operation the model
  raises ValueError unless their rows have the same lengths; numpy would also accept an
  operand with a single row or column and repeat it, which no array of a session is.
\<close>

type_synonym simplex = "nat list"
type_synonym bar = "nat \<times> nat"
type_synonym triangulator = "point list \<Rightarrow> error + simplex list"
type_synonym projector = "(point \<Rightarrow> npfloat) \<Rightarrow> point list \<Rightarrow> point list"

record params =
  fd :: "point \<Rightarrow> npfloat"
  fh :: "point \<Rightarrow> npfloat"
  h0 :: npfloat
  densityctrlfreq :: int
  dptol :: npfloat
  ttol :: npfloat
  Fscale :: npfloat
  deltat :: npfloat

record distmesh = params +
  geps :: npfloat
  Ndim :: nat
  pfix :: "point list"
  nfix :: nat
  N :: nat
  p :: "point list"
  pold :: "point list"
  edge_combinations :: "(nat \<times> nat) list"
  bars :: "bar list"
  t :: "simplex list"

text \<open>\<open>_delaunay(pts, fd, geps)\<close>: the oracle's simplices with the centroid inside.\<close>

definition DISTMESH_delaunay ::
  "triangulator \<Rightarrow> point list \<Rightarrow> (point \<Rightarrow> npfloat) \<Rightarrow> npfloat \<Rightarrow> error + simplex list" where
  "DISTMESH_delaunay delaunay pts f g =
     bindE (delaunay pts) (\<lambda>tri.
       if \<exists>smp\<in>set tri. \<exists>i\<in>set smp. length pts \<le> i then Inl IndexError
       else let pmid = map (\<lambda>smp. vmean (map (\<lambda>i. pts ! i) smp)) tri
            in Inr (select (map (\<lambda>m. f m < - g) pmid) tri))"

text \<open>
  \<open>triangulate\<close>. The assignment \<open>pold[:] = p[:]\<close> copies into the existing array and
  raises when the shapes differ. \<open>t[:, edge_combinations]\<close> raises when a simplex has
  no column for an index of \<open>edge_combinations\<close>.
\<close>

definition triangulate :: "triangulator \<Rightarrow> distmesh \<Rightarrow> error + distmesh" where
  "triangulate delaunay s =
     (if map length (pold s) \<noteq> map length (p s) then Inl ValueError
      else bindE (DISTMESH_delaunay delaunay (p s) (fd s) (geps s)) (\<lambda>tri.
        if \<exists>smp\<in>set tri. \<exists>(i, j)\<in>set (edge_combinations s). length smp \<le> i \<or> length smp \<le> j
        then Inl IndexError
        else let bars0 = concat (map (\<lambda>smp. map (\<lambda>(i, j). (smp ! i, smp ! j))
                                              (edge_combinations s)) tri);
                 bars1 = map (\<lambda>(a, b). (min a b, max a b)) bars0
             in Inr (s\<lparr>pold := p s, bars := np_unique bars1, t := tri\<rparr>)))"

text \<open>
  \<open>__init__\<close>, in two parts. \<open>candidates\<close> is its beginning, up to the line
  \<open>p = p[fd(p) < self.geps]\<close>: the dimension \<open>Ndim\<close> read from the bounding box and the
  lattice points that the distance field keeps. \<open>DISTMESH_init\<close> is the whole constructor.
  \<open>rnd\<close> is the sequence of samples that \<open>np.random.rand\<close> returns. The lattice of
  \<open>bbox2d\<close> has two columns and that of \<open>bbox3d\<close> three; fixed points of another length
  cannot be subtracted from or stacked on its rows.
\<close>

definition candidates :: "params \<Rightarrow> npfloat list list option \<Rightarrow> error + (nat \<times> point list)" where
  "candidates prm bbox_arg =
     (let g = Fin 0.001 * h0 prm;
          bbox = (case bbox_arg of None \<Rightarrow> [[Fin (- 1), Fin (- 1)], [Fin 1, Fin 1]] | Some b \<Rightarrow> b)
      in bindE (shape1 bbox) (\<lambda>nd.
         bindE (if nd = 2 then bbox2d (h0 prm) bbox else bbox3d (h0 prm) bbox) (\<lambda>lattice.
         Inr (nd, [q \<leftarrow> lattice. fd prm q < g]))))"

definition DISTMESH_init ::
  "triangulator \<Rightarrow> (nat \<Rightarrow> real) \<Rightarrow> params \<Rightarrow> point list option \<Rightarrow> npfloat list list option
     \<Rightarrow> error + distmesh" where
  "DISTMESH_init delaunay rnd prm pfix_arg bbox_arg =
     bindE (candidates prm bbox_arg) (\<lambda>(nd, p1).
       let g = Fin 0.001 * h0 prm;
           r0 = map (\<lambda>q. Fin 1 / (fh prm q * fh prm q)) p1
       in bindE (np_max r0) (\<lambda>m.
          let selection = map2 (\<lambda>u r. Fin u < r / m) (map rnd [0..<length p1]) r0;
              p2 = select selection p1;
              pf = (case pfix_arg of None \<Rightarrow> [] | Some f \<Rightarrow> f)
          in bindE (if 0 < length pf
                    then (if \<exists>row\<in>set pf. length row \<noteq> (if nd = 2 then 2 else 3)
                          then Inl ValueError
                          else Inr (pf @ remove_duplicate_nodes p2 pf g))
                    else Inr p2) (\<lambda>p3.
             triangulate delaunay
               \<lparr>fd = fd prm, fh = fh prm, h0 = h0 prm,
                densityctrlfreq = densityctrlfreq prm, dptol = dptol prm, ttol = ttol prm,
                Fscale = Fscale prm, deltat = deltat prm,
                geps = g, Ndim = nd, pfix = pf, nfix = length pf,
                N = length p3, p = p3,
                pold = replicate (length p3) (replicate nd PInf),
                edge_combinations = combinations2 (nd + 1),
                bars = [], t = []\<rparr>)))"

definition is_retriangulate :: "distmesh \<Rightarrow> error + bool" where
  "is_retriangulate s =
     (if map length (p s) \<noteq> map length (pold s) then Inl ValueError
      else bindE (np_max (dist_rows (map2 vsub (p s) (pold s)))) (\<lambda>m. Inr (h0 s * ttol s < m)))"

definition bar_length :: "distmesh \<Rightarrow> error + (npfloat list \<times> npfloat list \<times> point list)" where
  "bar_length s =
     bindE (rows_at (p s) (map fst (bars s))) (\<lambda>bars_a.
     bindE (rows_at (p s) (map snd (bars s))) (\<lambda>bars_b.
       let barvec = map2 vsub bars_a bars_b;
           L = dist_rows barvec;
           hbars = map (fh s) (map2 (\<lambda>a b. map (\<lambda>x. x / Fin 2) (vadd a b)) bars_a bars_b);
           L0 = map (\<lambda>h. h * Fscale s
                           * fsqrt (fsum (map (\<lambda>l. l * l) L) / fsum (map (\<lambda>h. h * h) hbars)))
                    hbars
       in Inr (L, L0, barvec)))"

text \<open>
  \<open>bar_force\<close>. The sparse matrix sums the entries that share a row and a column, and its
  constructor raises when an index is outside the shape \<open>(N, Ndim)\<close> or the three arrays
  differ in length.
\<close>

definition bar_force ::
  "distmesh \<Rightarrow> npfloat list \<Rightarrow> npfloat list \<Rightarrow> point list \<Rightarrow> error + point list" where
  "bar_force s L L0 barvec =
     (let F = map2 (\<lambda>l0 l. maximum (l0 - l) (Fin 0)) L0 L;
          Fvec = map2 (\<lambda>f (v, l). map (\<lambda>x. f * (x / l)) v) F (zip barvec L);
          data = concat (map (\<lambda>v. v @ map uminus v) Fvec);
          rows = concat (map (\<lambda>(a, b). if Ndim s = 2 then [a, a, b, b] else [a, a, a, b, b, b])
                             (bars s));
          cols = concat (map (\<lambda>_. if Ndim s = 2 then [0, 1, 0, 1] else [0, 1, 2, 0, 1, 2]) F);
          entries = zip rows (zip cols data)
      in if length rows \<noteq> length data \<or> length cols \<noteq> length data then Inl ValueError
         else if \<exists>(r, c, v)\<in>set entries. N s \<le> r \<or> Ndim s \<le> c then Inl ValueError
         else let Ftot = map (\<lambda>i. map (\<lambda>j. fsum (map (\<lambda>(r, c, v). v)
                                     (filter (\<lambda>(r, c, v). r = i \<and> c = j) entries)))
                                   [0..<Ndim s]) [0..<N s]
              in Inr (replicate (min (length (pfix s)) (N s)) (replicate (Ndim s) (Fin 0))
                      @ drop (length (pfix s)) Ftot))"

text \<open>\<open>density_control\<close>: the indices it deletes, the rows it keeps, the new state.\<close>

definition density_ixdel :: "distmesh \<Rightarrow> npfloat list \<Rightarrow> npfloat list \<Rightarrow> nat list" where
  "density_ixdel s L L0 =
     (let ixout = map2 (\<lambda>l0 l. Fin 2 * l < l0) L0 L
      in setdiff1d (concat (map (\<lambda>(a, b). [a, b]) (select ixout (bars s)))) [0..<nfix s])"

definition density_keep :: "distmesh \<Rightarrow> npfloat list \<Rightarrow> npfloat list \<Rightarrow> nat list" where
  "density_keep s L L0 = setdiff1d [0..<N s] (density_ixdel s L L0)"

definition density_control :: "distmesh \<Rightarrow> npfloat list \<Rightarrow> npfloat list \<Rightarrow> error + distmesh" where
  "density_control s L L0 =
     (if length L0 \<noteq> length (bars s) \<or> length L \<noteq> length (bars s) then Inl IndexError
      else bindE (rows_at (p s) (density_keep s L L0)) (\<lambda>p'.
             Inr (s\<lparr>p := p', N := length p',
                    pold := replicate (length p') (replicate (Ndim s) PInf)\<rparr>)))"

text \<open>\<open>p[ix] -= disp\<close>: the rows of the mask, in order, each less its displacement.\<close>

fun sub_where :: "bool list \<Rightarrow> point list \<Rightarrow> point list \<Rightarrow> point list" where
  "sub_where (True # m) (q # qs) (v # vs) = vsub q v # sub_where m qs vs"
| "sub_where (False # m) (q # qs) vs = q # sub_where m qs vs"
| "sub_where _ qs _ = qs"

text \<open>\<open>p += deltat * Ftot\<close>\<close>

definition advance :: "distmesh \<Rightarrow> point list \<Rightarrow> point list" where
  "advance s Ftot = map2 (\<lambda>q f. vadd q (map (\<lambda>x. deltat s * x) f)) (p s) Ftot"

text \<open>
  \<open>move_p\<close>. The in-place operations raise when the force array or the displacements
  of \<open>edge_project\<close> do not have the shape of the rows they are combined with.
\<close>

definition move_p :: "projector \<Rightarrow> distmesh \<Rightarrow> point list \<Rightarrow> error + (distmesh \<times> bool)" where
  "move_p project s Ftot =
     (if map length Ftot \<noteq> map length (p s) then Inl ValueError
      else let p1 = advance s Ftot;
               d = map (fd s) p1;
               ix = map (\<lambda>v. Fin 0 < v) d;
               disp = project (fd s) (select ix p1)
           in if 0 < length (filter id ix) \<and> map length disp \<noteq> map length (select ix p1)
              then Inl ValueError
              else let p2 = (if 0 < length (filter id ix) then sub_where ix p1 disp else p1);
                       ix_interior = map (\<lambda>v. v < - geps s) d;
                       delta_move = map (map (\<lambda>x. deltat s * x)) (select ix_interior Ftot)
                   in bindE (np_max (map (\<lambda>v. v / h0 s) (dist_rows delta_move))) (\<lambda>m.
                        Inr (s\<lparr>p := p2\<rparr>, m < dptol s)))"

text \<open>
  Modelled from the spec: \<open>edge_project\<close> of \<open>pyeit/mesh/utils.py\<close> is not among the
  sources. The spec has the displacement of a point as the value of the distance field
  there times its gradient, the gradient estimated by symmetric finite differences along
  each coordinate axis with a small fixed step. The spec does not give the step; it is the
  parameter \<open>eps\<close>.
\<close>

definition edge_grad :: "npfloat \<Rightarrow> (point \<Rightarrow> npfloat) \<Rightarrow> point \<Rightarrow> point" where
  "edge_grad eps f q =
     map (\<lambda>k. (f (q[k := q ! k + eps]) - f (q[k := q ! k - eps])) / (Fin 2 * eps)) [0..<length q]"

definition edge_project :: "npfloat \<Rightarrow> projector" where
  "edge_project eps f qs = map (\<lambda>q. map (\<lambda>g. f q * g) (edge_grad eps f q)) qs"

section \<open>The driver: build\<close>

text \<open>
  One pass of the loop body for the index \<open>i\<close>; the flag is true when the pass ends in
  \<open>break\<close>. \<open>i % densityctrlfreq\<close> raises on a zero cadence.
\<close>

definition iteration ::
  "triangulator \<Rightarrow> projector \<Rightarrow> nat \<Rightarrow> distmesh \<Rightarrow> error + (distmesh \<times> bool)" where
  "iteration delaunay project i s =
     bindE (is_retriangulate s) (\<lambda>r.
     bindE (if r then triangulate delaunay s else Inr s) (\<lambda>s1.
     bindE (bar_length s1) (\<lambda>(L, L0, barvec).
       if densityctrlfreq s1 = 0 then Inl ZeroDivisionError
       else if int i mod densityctrlfreq s1 = 0 \<and> (\<exists>(l0, l)\<in>set (zip L0 L). Fin 2 * l < l0)
       then bindE (density_control s1 L L0) (\<lambda>s2. Inr (s2, False))
       else bindE (bar_force s1 L L0 barvec) (\<lambda>Ftot. move_p project s1 Ftot))))"

text \<open>The loop \<open>for i in range(maxiter)\<close>, from the index \<open>i\<close> with \<open>k\<close> passes left.\<close>

fun relax :: "triangulator \<Rightarrow> projector \<Rightarrow> nat \<Rightarrow> nat \<Rightarrow> distmesh \<Rightarrow> error + distmesh" where
  "relax delaunay project i 0 s = Inr s"
| "relax delaunay project i (Suc k) s =
     (case iteration delaunay project i s of
        Inl e \<Rightarrow> Inl e
      | Inr (s', stop) \<Rightarrow> if stop then Inr s' else relax delaunay project (Suc i) k s')"

definition build ::
  "triangulator \<Rightarrow> projector \<Rightarrow> (nat \<Rightarrow> real) \<Rightarrow> params \<Rightarrow> point list option
     \<Rightarrow> npfloat list list option \<Rightarrow> int \<Rightarrow> error + (point list \<times> simplex list)" where
  "build delaunay project rnd prm pfix_arg bbox_arg maxiter =
     bindE (DISTMESH_init delaunay rnd prm pfix_arg bbox_arg) (\<lambda>dm.
     bindE (relax delaunay project 0 (nat maxiter) dm) (\<lambda>dm1.
     bindE (triangulate delaunay dm1) (\<lambda>dm2. Inr (p dm2, t dm2))))"

section \<open>Definitions for the statements\<close>

text \<open>The Bar Set that \<open>triangulate\<close> derives from the simplices \<open>tri\<close>.\<close>

definition bars_of :: "(nat \<times> nat) list \<Rightarrow> simplex list \<Rightarrow> bar list" where
  "bars_of ec tri = np_unique (map (\<lambda>(a, b). (min a b, max a b))
     (concat (map (\<lambda>smp. map (\<lambda>(i, j). (smp ! i, smp ! j)) ec) tri)))"

text \<open>
  The desired length of a bar in the words of the spec: the Euclidean length of a bar,
  the midpoint of a bar as the average of its two endpoints, and
  \<open>L0 = fh(midpoint) * Fscale * sqrt(sum of L^2 / sum of fh(midpoint)^2)\<close>, the sums over
  all bars.
\<close>

definition spec_length :: "point \<Rightarrow> point \<Rightarrow> npfloat" where
  "spec_length a b = fsqrt (fsum (map2 (\<lambda>x y. (x - y) * (x - y)) a b))"

definition spec_midpoint :: "point \<Rightarrow> point \<Rightarrow> point" where
  "spec_midpoint a b = map2 (\<lambda>x y. (x + y) / Fin 2) a b"

definition spec_L0 :: "distmesh \<Rightarrow> bar \<Rightarrow> npfloat" where
  "spec_L0 s bar =
     fh s (spec_midpoint (p s ! fst bar) (p s ! snd bar)) * Fscale s
     * fsqrt (fsum (map (\<lambda>(i, j). spec_length (p s ! i) (p s ! j) * spec_length (p s ! i) (p s ! j))
                        (bars s))
              / fsum (map (\<lambda>(i, j). fh s (spec_midpoint (p s ! i) (p s ! j))
                                     * fh s (spec_midpoint (p s ! i) (p s ! j))) (bars s)))"

section \<open>Example sessions\<close>

text \<open>
  Concrete fields and sessions, used to run the definitions on explicit inputs. The
  half-plane \<open>y \<le> c\<close> has the signed distance \<open>y - c\<close>.
\<close>

definition halfplane :: "real \<Rightarrow> point \<Rightarrow> npfloat" where
  "halfplane c q = (case q of x # y # _ \<Rightarrow> y - Fin c | _ \<Rightarrow> NaN)"

definition uniform :: "point \<Rightarrow> npfloat" where
  "uniform q = Fin 1"

text \<open>A session on the triangle with the sides 3, 4 and 5, just triangulated.\<close>

definition tri345 :: "real \<Rightarrow> distmesh" where
  "tri345 c = \<lparr>fd = halfplane c, fh = uniform, h0 = Fin (1/10), densityctrlfreq = 30,
     dptol = Fin (1/1000), ttol = Fin (1/10), Fscale = Fin (6/5), deltat = Fin (1/5),
     geps = Fin (1/10000), Ndim = 2, pfix = [], nfix = 0, N = 3,
     p = [[Fin 0, Fin 0], [Fin 3, Fin 0], [Fin 0, Fin 4]],
     pold = [[Fin 0, Fin 0], [Fin 3, Fin 0], [Fin 0, Fin 4]],
     edge_combinations = [(0, 1), (0, 2), (1, 2)], bars = [(0, 1), (0, 2), (1, 2)],
     t = [[0, 1, 2]]\<rparr>"

text \<open>
  A session on the rectangle with the sides 3 and 4, triangulated along a diagonal, with
  the first \<open>nf\<close> points fixed. The density field asks for long bars along the two short
  sides and short bars elsewhere. \<open>rect34_L\<close> and \<open>rect34_L0\<close> are the lengths and the
  desired lengths that \<open>bar_length\<close> returns for it.
\<close>

definition band :: "point \<Rightarrow> npfloat" where
  "band q = (case q of x # y # _ \<Rightarrow> if y = Fin 2 then Fin 1 else Fin 6 | _ \<Rightarrow> NaN)"

definition rect34 :: "nat \<Rightarrow> distmesh" where
  "rect34 nf = \<lparr>fd = halfplane 10, fh = band, h0 = Fin 1, densityctrlfreq = 30,
     dptol = Fin (1/1000), ttol = Fin (1/10), Fscale = Fin (6/5), deltat = Fin (1/5),
     geps = Fin (1/1000), Ndim = 2,
     pfix = take nf [[Fin 0, Fin 0], [Fin 3, Fin 0], [Fin 0, Fin 4], [Fin 3, Fin 4]],
     nfix = nf, N = 4,
     p = [[Fin 0, Fin 0], [Fin 3, Fin 0], [Fin 0, Fin 4], [Fin 3, Fin 4]],
     pold = [[Fin 0, Fin 0], [Fin 3, Fin 0], [Fin 0, Fin 4], [Fin 3, Fin 4]],
     edge_combinations = [(0, 1), (0, 2), (1, 2)],
     bars = [(0, 1), (0, 2), (0, 3), (1, 3), (2, 3)],
     t = [[0, 1, 3], [0, 3, 2]]\<rparr>"

definition rect34_L :: "npfloat list" where
  "rect34_L = [Fin 3, Fin 4, Fin 5, Fin 4, Fin 3]"

definition rect34_L0 :: "npfloat list" where
  "rect34_L0 = [Fin (36/5), Fin (6/5), Fin (6/5), Fin (6/5), Fin (36/5)]"

text \<open>
  Two variants of \<open>rect34 2\<close>: \<open>rect34_never\<close> has the tolerance \<open>ttol = inf\<close>, and
  \<open>rect34_far\<close> has the first coordinate of its first point at \<open>+inf\<close>. \<open>rect34_far_L\<close> and
  \<open>rect34_far_L0\<close> are the lengths and the desired lengths that \<open>bar_length\<close> returns for
  \<open>rect34_far\<close>.
\<close>

definition rect34_never :: distmesh where
  "rect34_never = rect34 2\<lparr>ttol := PInf\<rparr>"

definition rect34_far :: distmesh where
  "rect34_far = rect34 2\<lparr>p := [[PInf, Fin 0], [Fin 3, Fin 0], [Fin 0, Fin 4], [Fin 3, Fin 4]],
                          pold := [[PInf, Fin 0], [Fin 3, Fin 0], [Fin 0, Fin 4], [Fin 3, Fin 4]]\<rparr>"

definition rect34_far_L :: "npfloat list" where
  "rect34_far_L = [PInf, PInf, PInf, Fin 4, Fin 3]"

definition rect34_far_L0 :: "npfloat list" where
  "rect34_far_L0 = [PInf, PInf, PInf, PInf, PInf]"


text \<open>A triangulation stub for four points: the two triangles along the diagonal (0, 3).\<close>

definition two_triangles :: triangulator where
  "two_triangles pts = (if length pts = 4 then Inr [[0, 1, 3], [0, 3, 2]] else Inl QhullError)"

text \<open>
  A whole run. The half-plane \<open>x \<le> c\<close> has the signed distance \<open>x - c\<close>. With \<open>h0 = 1\<close>
  and the bounding box from (0, 0) to (1, sqrt 3) the lattice of \<open>bbox2d\<close> has the two
  points (0, 0) and (1/2, sqrt 3 / 2); with the fixed point (1, 0) they make the triangle
  with the sides 1, 1 and 1. \<open>one_triangle\<close> stands for the triangulation of three points,
  \<open>half_rnd\<close> for a random source whose samples are all 1/2. \<open>eq_session\<close> is the session
  after construction; \<open>eq_L\<close>, \<open>eq_L0\<close>, \<open>eq_barvec\<close> and \<open>eq_Ftot\<close> are what \<open>bar_length\<close>
  and \<open>bar_force\<close> return for it, and \<open>eq_moved q\<close> is the Point Set after one pass of the
  loop, with the fixed point at \<open>q\<close>.
\<close>

definition leftof :: "real \<Rightarrow> point \<Rightarrow> npfloat" where
  "leftof c q = (case q of x # _ \<Rightarrow> x - Fin c | [] \<Rightarrow> NaN)"

definition one_triangle :: triangulator where
  "one_triangle pts = (if length pts = 3 then Inr [[0, 1, 2]] else Inl QhullError)"

definition half_rnd :: "nat \<Rightarrow> real" where
  "half_rnd i = 1/2"

definition eq_prm :: "real \<Rightarrow> params" where
  "eq_prm c = \<lparr>fd = leftof c, fh = uniform, h0 = Fin 1, densityctrlfreq = 30,
     dptol = Fin (1/1000), ttol = Fin (1/10), Fscale = Fin (6/5), deltat = Fin (1/5)\<rparr>"

definition eq_bbox :: "npfloat list list" where
  "eq_bbox = [[Fin 0, Fin 0], [Fin 1, Fin (sqrt 3)]]"

definition eq_session :: "real \<Rightarrow> distmesh" where
  "eq_session c = \<lparr>fd = leftof c, fh = uniform, h0 = Fin 1, densityctrlfreq = 30,
     dptol = Fin (1/1000), ttol = Fin (1/10), Fscale = Fin (6/5), deltat = Fin (1/5),
     geps = Fin (1/1000), Ndim = 2, pfix = [[Fin 1, Fin 0]], nfix = 1, N = 3,
     p = [[Fin 1, Fin 0], [Fin 0, Fin 0], [Fin (1/2), Fin (sqrt 3 / 2)]],
     pold = [[Fin 1, Fin 0], [Fin 0, Fin 0], [Fin (1/2), Fin (sqrt 3 / 2)]],
     edge_combinations = [(0, 1), (0, 2), (1, 2)], bars = [(0, 1), (0, 2), (1, 2)],
     t = [[0, 1, 2]]\<rparr>"

definition eq_L :: "npfloat list" where "eq_L = [Fin 1, Fin 1, Fin 1]"
definition eq_L0 :: "npfloat list" where "eq_L0 = [Fin (6 / 5), Fin (6 / 5), Fin (6 / 5)]"
definition eq_barvec :: "point list" where
  "eq_barvec = [[Fin 1, Fin 0], [Fin (1 / 2), Fin (- (sqrt 3 / 2))],
           [Fin (- (1 / 2)), Fin (- (sqrt 3 / 2))]]"
definition eq_Ftot :: "point list" where
  "eq_Ftot = [[Fin 0, Fin 0], [Fin (- (3 / 10)), Fin (- (sqrt 3 / 10))], [Fin 0, Fin (sqrt 3 / 5)]]"

definition eq_moved :: "point \<Rightarrow> point list" where
  "eq_moved q = [q, [Fin (- (3 / 50)), Fin (- (sqrt 3 / 50))], [Fin (1 / 2), Fin (27 * sqrt 3 / 50)]]"

text \<open>
  Parameters with a negative and with a zero \<open>h0\<close>, the bounding box of the run on three
  points with its two corners exchanged, and the session that the constructor returns for
  the negative \<open>h0\<close> and the exchanged corners.
\<close>

definition neg_prm :: params where
  "neg_prm = \<lparr>fd = leftof 2, fh = uniform, h0 = Fin (- 1), densityctrlfreq = 30,
     dptol = Fin (1/1000), ttol = Fin (1/10), Fscale = Fin (6/5), deltat = Fin (1/5)\<rparr>"

definition rev_bbox :: "npfloat list list" where
  "rev_bbox = [[Fin 1, Fin (sqrt 3)], [Fin 0, Fin 0]]"

definition neg_session :: distmesh where
  "neg_session = \<lparr>fd = leftof 2, fh = uniform, h0 = Fin (- 1), densityctrlfreq = 30,
     dptol = Fin (1/1000), ttol = Fin (1/10), Fscale = Fin (6/5), deltat = Fin (1/5),
     geps = Fin (- (1/1000)), Ndim = 2, pfix = [[Fin 1, Fin 0]], nfix = 1, N = 3,
     p = [[Fin 1, Fin 0], [Fin 1, Fin (sqrt 3)], [Fin (1/2), Fin (sqrt 3 / 2)]],
     pold = [[Fin 1, Fin 0], [Fin 1, Fin (sqrt 3)], [Fin (1/2), Fin (sqrt 3 / 2)]],
     edge_combinations = [(0, 1), (0, 2), (1, 2)], bars = [(0, 1), (0, 2), (1, 2)],
     t = [[0, 1, 2]]\<rparr>"

definition zero_prm :: params where
  "zero_prm = \<lparr>fd = leftof 2, fh = uniform, h0 = Fin 0, densityctrlfreq = 30,
     dptol = Fin (1/1000), ttol = Fin (1/10), Fscale = Fin (6/5), deltat = Fin (1/5)\<rparr>"

section \<open>Basic lemmas\<close>

lemma bindE_simps [simp]: "bindE (Inl e) f = Inl e" "bindE (Inr v) f = f v"
  by (simp_all add: bindE_def)

lemma bindE_Inr_iff: "bindE r f = Inr y \<longleftrightarrow> (\<exists>v. r = Inr v \<and> f v = Inr y)"
  by (cases r) simp_all

lemma select_all_False: "\<forall>b\<in>set m. \<not> b \<Longrightarrow> select m xs = []"
  by (auto simp: select_def filter_empty_conv dest: set_zip_rightD)

section \<open>The convergence test of move_p\<close>

text \<open>
  C10. When no point is strictly interior after the position update of \<open>move_p\<close> (no row
  of \<open>p + deltat * Ftot\<close> has a distance-field value below \<open>- geps\<close>), \<open>move_p\<close> does not
  return a convergence flag: the maximum over the empty array of displacements raises
  ValueError.
\<close>

theorem move_p_no_interior_raises:
  "\<forall>q\<in>set (advance s Ftot). \<not> fd s q < - geps s \<Longrightarrow> move_p project s Ftot = Inl ValueError"
proof -
  assume h: "\<forall>q\<in>set (advance s Ftot). \<not> fd s q < - geps s"
  have "select (map (\<lambda>v. v < - geps s) (map (fd s) (advance s Ftot))) Ftot = []"
    by (rule select_all_False) (use h in auto)
  then show ?thesis
    by (simp add: move_p_def Let_def dist_rows_def)
qed

text \<open>
  The three points of \<open>tri345 0\<close> lie on or outside the half-plane \<open>y \<le> 0\<close>; with a zero
  force none of them is strictly interior.
\<close>

theorem move_p_no_interior_raises_witness:
  "\<not> (\<exists>q\<in>set (advance (tri345 0) [[Fin 0, Fin 0], [Fin 0, Fin 0], [Fin 0, Fin 0]]).
       fd (tri345 0) q < - geps (tri345 0))
   \<and> move_p (edge_project (Fin (1/100))) (tri345 0) [[Fin 0, Fin 0], [Fin 0, Fin 0], [Fin 0, Fin 0]]
       = Inl ValueError"
proof -
  have h: "\<forall>q\<in>set (advance (tri345 0) [[Fin 0, Fin 0], [Fin 0, Fin 0], [Fin 0, Fin 0]]).
       \<not> fd (tri345 0) q < - geps (tri345 0)"
    by (simp add: advance_def tri345_def vadd_def halfplane_def minus_npfloat_def)
  show ?thesis
    using h move_p_no_interior_raises [OF h, of "edge_project (Fin (1/100))"] by blast
qed

lemma set_np_unique [simp]: "set (np_unique xs) = set xs"
  by (simp add: np_unique_def)

lemma distinct_np_unique [simp]: "distinct (np_unique xs)"
  by (simp add: np_unique_def)

lemma sorted_np_unique [simp]: "sorted (np_unique xs)"
  by (simp add: np_unique_def)

lemma set_setdiff1d [simp]: "set (setdiff1d a b) = set a - set b"
  by (auto simp: setdiff1d_def)

lemma np_unique_sorted_distinct: "sorted xs \<Longrightarrow> distinct xs \<Longrightarrow> np_unique xs = xs"
  by (simp add: np_unique_def sort_key_id_if_sorted)

lemma setdiff1d_upt: "setdiff1d [0..<n] d = [i \<leftarrow> [0..<n]. i \<notin> set d]"
  unfolding setdiff1d_def by (rule np_unique_sorted_distinct) (simp_all add: sorted_wrt_filter)

lemma in_set_select: "x \<in> set (select m xs) \<longleftrightarrow> (\<exists>k. k < length xs \<and> k < length m \<and> xs ! k = x \<and> m ! k)"
  by (auto simp: select_def in_set_zip image_iff) 

lemma density_ixdel_flagged:
  assumes "k < length (bars s)" "length L = length (bars s)" "length L0 = length (bars s)"
      and "bars s ! k = (a, b)" "Fin 2 * L ! k < L0 ! k"
  shows "nfix s \<le> a \<Longrightarrow> a \<in> set (density_ixdel s L L0)"
    and "nfix s \<le> b \<Longrightarrow> b \<in> set (density_ixdel s L L0)"
proof -
  have "(a, b) \<in> set (select (map2 (\<lambda>l0 l. Fin 2 * l < l0) L0 L) (bars s))"
    unfolding in_set_select using assms by (intro exI [of _ k]) simp
  then show "nfix s \<le> a \<Longrightarrow> a \<in> set (density_ixdel s L L0)"
    and "nfix s \<le> b \<Longrightarrow> b \<in> set (density_ixdel s L L0)"
    by (force simp: density_ixdel_def)+
qed

lemma density_ixdel_free: "i \<in> set (density_ixdel s L L0) \<Longrightarrow> nfix s \<le> i"
  by (auto simp: density_ixdel_def)

lemma take_filter_upt:
  assumes "m \<le> n" "\<forall>i<m. P i"
  shows "take m (filter P [0..<n]) = [0..<m]"
proof -
  have "[0..<n] = [0..<m] @ [m..<n]"
    using assms(1) by (metis le_add_diff_inverse upt_add_eq_append zero_le)
  moreover have "filter P [0..<m] = [0..<m]"
    using assms(2) by (simp add: filter_id_conv)
  ultimately show ?thesis by simp
qed

lemma map_nth_upt_take: "m \<le> length xs \<Longrightarrow> map (\<lambda>i. xs ! i) [0..<m] = take m xs"
  by (rule nth_equalityI) simp_all

lemma density_keep_take:
  assumes "nfix s \<le> N s"
  shows "take (nfix s) (density_keep s L L0) = [0..<nfix s]"
  unfolding density_keep_def setdiff1d_upt
  by (rule take_filter_upt) (use assms density_ixdel_free in \<open>auto simp: not_le [symmetric]\<close>)

lemma density_control_Inr:
  assumes "density_control s L L0 = Inr s'"
  shows "length L = length (bars s)" "length L0 = length (bars s)"
    "s' = s\<lparr>p := map (\<lambda>i. p s ! i) (density_keep s L L0),
            N := length (density_keep s L L0),
            pold := replicate (length (density_keep s L L0)) (replicate (Ndim s) PInf)\<rparr>"
  using assms
  by (auto simp: density_control_def rows_at_def bindE_def split: if_splits)

section \<open>Runs of the example sessions\<close>

lemma bar_length_rect34:
  "bar_length (rect34 nf) = Inr (rect34_L, rect34_L0,
     [[Fin (- 3), Fin 0], [Fin 0, Fin (- 4)], [Fin (- 3), Fin (- 4)], [Fin 0, Fin (- 4)],
      [Fin (- 3), Fin 0]])"
  by (simp add: bar_length_def rect34_def rows_at_def vsub_def vadd_def dist_rows_def dist1_def
      fsum_def minus_npfloat_def band_def rect34_L_def rect34_L0_def)


lemma rect34_sel:
  "bars (rect34 nf) = [(0, 1), (0, 2), (0, 3), (1, 3), (2, 3)]"
  "p (rect34 nf) = [[Fin 0, Fin 0], [Fin 3, Fin 0], [Fin 0, Fin 4], [Fin 3, Fin 4]]"
  "pold (rect34 nf) = [[Fin 0, Fin 0], [Fin 3, Fin 0], [Fin 0, Fin 4], [Fin 3, Fin 4]]"
  "N (rect34 nf) = 4" "nfix (rect34 nf) = nf" "Ndim (rect34 nf) = 2"
  "h0 (rect34 nf) = Fin 1" "ttol (rect34 nf) = Fin (1/10)"
  by (simp_all add: rect34_def)

lemma rect34_L_length: "length rect34_L = 5" "length rect34_L0 = 5"
  by (simp_all add: rect34_L_def rect34_L0_def)

lemma density_keep_rect34_2: "density_keep (rect34 2) rect34_L rect34_L0 = [0, 1]"
  by (simp add: density_keep_def density_ixdel_def setdiff1d_def np_unique_def select_def
      rect34_sel rect34_L_def rect34_L0_def upt_rec)

lemma density_control_rect34_2:
  "density_control (rect34 2) rect34_L rect34_L0
     = Inr (rect34 2\<lparr>p := [[Fin 0, Fin 0], [Fin 3, Fin 0]], N := 2,
                     pold := [[PInf, PInf], [PInf, PInf]]\<rparr>)"
  by (simp add: density_control_def density_keep_rect34_2 rows_at_def rect34_sel
      rect34_L_length) (simp add: numeral_2_eq_2)

section \<open>Density control\<close>

text \<open>
  C5. When a bar has \<open>L0 > 2 * L\<close> and both of its endpoints are free (at or above
  \<open>nfix\<close>), \<open>density_control\<close> keeps exactly the rows at the indices \<open>density_keep\<close>, in
  order; neither endpoint of the bar is among them, so both are removed. No row below
  \<open>nfix\<close> is removed: the first \<open>nfix\<close> rows of the new Point Set are those of the old one,
  and \<open>nfix\<close> is unchanged.
\<close>

theorem density_control_removes_crowded_free_nodes:
  assumes "density_control s L L0 = Inr s'"
      and "k < length (bars s)" and "bars s ! k = (a, b)" and "Fin 2 * L ! k < L0 ! k"
      and "nfix s \<le> a" and "nfix s \<le> b"
      and "N s = length (p s)" and "nfix s \<le> N s"
  shows "p s' = map (\<lambda>i. p s ! i) (density_keep s L L0)
       \<and> a \<notin> set (density_keep s L L0) \<and> b \<notin> set (density_keep s L L0)
       \<and> take (nfix s) (p s') = take (nfix s) (p s)
       \<and> nfix s' = nfix s"
proof -
  note d = density_control_Inr [OF assms(1)]
  have ab: "a \<in> set (density_ixdel s L L0)" "b \<in> set (density_ixdel s L L0)"
    using density_ixdel_flagged [OF assms(2) d(1) d(2) assms(3) assms(4)] assms(5,6) by auto
  have "take (nfix s) (p s') = map (\<lambda>i. p s ! i) [0..<nfix s]"
    by (simp add: d(3) take_map density_keep_take [OF assms(8)])
  also have "\<dots> = take (nfix s) (p s)"
    using assms(7,8) by (simp add: map_nth_upt_take)
  finally show ?thesis
    using ab by (simp add: d(3) density_keep_def)
qed


text \<open>
  On \<open>rect34 2\<close> the two short sides are flagged. The bar (0, 1) joins the two fixed
  points, which stay; the bar (2, 3) joins two free points, which are both removed.
\<close>

theorem density_control_removes_crowded_free_nodes_witness:
  "density_control (rect34 2) rect34_L rect34_L0
     = Inr (rect34 2\<lparr>p := [[Fin 0, Fin 0], [Fin 3, Fin 0]], N := 2,
                     pold := [[PInf, PInf], [PInf, PInf]]\<rparr>)
   \<and> bars (rect34 2) ! 4 = (2, 3) \<and> Fin 2 * rect34_L ! 4 < rect34_L0 ! 4
   \<and> nfix (rect34 2) = 2 \<and> N (rect34 2) = length (p (rect34 2))
   \<and> density_keep (rect34 2) rect34_L rect34_L0 = [0, 1]
   \<and> 2 \<notin> set (density_keep (rect34 2) rect34_L rect34_L0)
   \<and> 3 \<notin> set (density_keep (rect34 2) rect34_L rect34_L0)
   \<and> take 2 (p (rect34 2\<lparr>p := [[Fin 0, Fin 0], [Fin 3, Fin 0]], N := 2,
                          pold := [[PInf, PInf], [PInf, PInf]]\<rparr>))
       = take 2 (p (rect34 2))"
proof -
  have h: "4 < length (bars (rect34 2))" "bars (rect34 2) ! 4 = (2, 3)"
    "Fin 2 * rect34_L ! 4 < rect34_L0 ! 4" "nfix (rect34 2) \<le> 2" "nfix (rect34 2) \<le> 3"
    "N (rect34 2) = length (p (rect34 2))" "nfix (rect34 2) \<le> N (rect34 2)"
    by (simp_all add: rect34_sel rect34_L_def rect34_L0_def)
  show ?thesis
    using density_control_removes_crowded_free_nodes
      [OF density_control_rect34_2 h(1) h(2) h(3) h(4) h(5) h(6) h(7)]
      density_control_rect34_2 h density_keep_rect34_2
    by (simp add: rect34_sel)
qed

section \<open>Retriangulation\<close>

lemma triangulate_Inr:
  assumes "triangulate dl s = Inr s'"
  shows "\<exists>tri. DISTMESH_delaunay dl (p s) (fd s) (geps s) = Inr tri
           \<and> s' = s\<lparr>pold := p s, bars := bars_of (edge_combinations s) tri, t := tri\<rparr>"
proof (cases "DISTMESH_delaunay dl (p s) (fd s) (geps s)")
  case (Inl e)
  with assms show ?thesis by (simp add: triangulate_def split: if_splits)
next
  case (Inr tri)
  with assms have "s' = s\<lparr>pold := p s, bars := bars_of (edge_combinations s) tri, t := tri\<rparr>"
    by (simp add: triangulate_def Let_def bars_of_def split: if_splits)
  with Inr show ?thesis by simp
qed

lemma set_select_subset: "set (select m xs) \<subseteq> set xs"
  by (auto simp: select_def dest: set_zip_leftD)

lemma DISTMESH_delaunay_valid:
  assumes "DISTMESH_delaunay dl pts f g = Inr tri"
  shows "\<forall>smp\<in>set tri. \<forall>i\<in>set smp. i < length pts"
proof (cases "dl pts")
  case (Inl e)
  with assms show ?thesis by (simp add: DISTMESH_delaunay_def)
next
  case (Inr tri0)
  with assms have ok: "\<not> (\<exists>smp\<in>set tri0. \<exists>i\<in>set smp. length pts \<le> i)"
    and "tri = select (map (\<lambda>m. f m < - g) (map (\<lambda>smp. vmean (map (\<lambda>i. pts ! i) smp)) tri0)) tri0"
    by (simp_all add: DISTMESH_delaunay_def Let_def split: if_splits)
  then have "set tri \<subseteq> set tri0" using set_select_subset by metis
  with ok show ?thesis by (meson not_le subsetD)
qed

lemma bars_of_props:
  "distinct (bars_of ec tri)" "sorted (bars_of ec tri)" "\<forall>(a, b)\<in>set (bars_of ec tri). a \<le> b"
  by (auto simp: bars_of_def)

lemma unordered_distinct:
  assumes "distinct bs" "\<forall>(a, b)\<in>set bs. a \<le> (b :: nat)"
  shows "distinct (map (\<lambda>(a, b). {a, b}) bs)"
proof -
  have "inj_on (\<lambda>(a, b). {a, b}) (set bs)"
  proof (rule inj_onI, clarify)
    fix a b c d assume "(a, b) \<in> set bs" "(c, d) \<in> set bs" "{a, b} = {c, d}"
    with assms(2) have "a \<le> b" "c \<le> d" by auto
    with \<open>{a, b} = {c, d}\<close> show "a = c \<and> b = d"
      by (metis doubleton_eq_iff le_antisym)
  qed
  with assms(1) show ?thesis by (simp add: distinct_map)
qed

text \<open>
  C7. After \<open>triangulate\<close>, every index of the Simplex Set is below the number of rows
  of the Point Set, no unordered pair of indices occurs twice in the Bar Set, and every
  bar has its smaller index first.
\<close>

theorem triangulate_indices_valid_bars_unique:
  assumes "triangulate dl s = Inr s'"
  shows "(\<forall>smp\<in>set (t s'). \<forall>i\<in>set smp. i < length (p s'))
       \<and> distinct (map (\<lambda>(a, b). {a, b}) (bars s'))
       \<and> (\<forall>(a, b)\<in>set (bars s'). a \<le> b)"
proof -
  from triangulate_Inr [OF assms] obtain tri where
    d: "DISTMESH_delaunay dl (p s) (fd s) (geps s) = Inr tri"
    and s': "s' = s\<lparr>pold := p s, bars := bars_of (edge_combinations s) tri, t := tri\<rparr>"
    by blast
  show ?thesis
    using DISTMESH_delaunay_valid [OF d] bars_of_props [of "edge_combinations s" tri]
      unordered_distinct [of "bars_of (edge_combinations s) tri"]
    by (simp add: s')
qed


lemma triangulate_rect34: "triangulate two_triangles (rect34 0) = Inr (rect34 0)"
  by (simp add: triangulate_def DISTMESH_delaunay_def two_triangles_def rect34_def vmean_def
      halfplane_def minus_npfloat_def fsum_def select_def np_unique_def Let_def)

text \<open>
  The rectangle has two triangles that share the diagonal (0, 3); the diagonal is one bar.
\<close>

theorem triangulate_indices_valid_bars_unique_witness:
  "triangulate two_triangles (rect34 0) = Inr (rect34 0)
   \<and> t (rect34 0) = [[0, 1, 3], [0, 3, 2]] \<and> length (p (rect34 0)) = 4
   \<and> bars (rect34 0) = [(0, 1), (0, 2), (0, 3), (1, 3), (2, 3)]
   \<and> distinct (map (\<lambda>(a, b). {a, b}) (bars (rect34 0)))"
  using triangulate_indices_valid_bars_unique [OF triangulate_rect34] triangulate_rect34
  by (simp add: rect34_sel) (simp add: rect34_def)

section \<open>Desired bar lengths\<close>

lemma dist1_vsub: "dist1 (vsub a b) = spec_length a b"
  by (simp add: dist1_def vsub_def spec_length_def comp_def case_prod_unfold)


lemma bar_length_unfold:
  assumes "bar_length s = Inr (L, L0, bv)"
  shows "(\<forall>i\<in>set (map fst (bars s)). i < length (p s))
       \<and> (\<forall>i\<in>set (map snd (bars s)). i < length (p s))
       \<and> bv = map2 vsub (map (\<lambda>i. p s ! i) (map fst (bars s))) (map (\<lambda>i. p s ! i) (map snd (bars s)))
       \<and> L = dist_rows bv
       \<and> L0 = map (\<lambda>h. h * Fscale s * fsqrt (fsum (map (\<lambda>l. l * l) L)
                 / fsum (map (\<lambda>h. h * h) (map (fh s) (map2 (\<lambda>a b. map (\<lambda>x. x / Fin 2) (vadd a b))
              (map (\<lambda>i. p s ! i) (map fst (bars s))) (map (\<lambda>i. p s ! i) (map snd (bars s))))))))
               (map (fh s) (map2 (\<lambda>a b. map (\<lambda>x. x / Fin 2) (vadd a b))
              (map (\<lambda>i. p s ! i) (map fst (bars s))) (map (\<lambda>i. p s ! i) (map snd (bars s)))))"
proof -
  have a: "\<forall>i\<in>set (map fst (bars s)). i < length (p s)"
    using assms by (auto simp: bar_length_def rows_at_def split: if_splits)
  have b: "\<forall>i\<in>set (map snd (bars s)). i < length (p s)"
    using assms a by (auto simp: bar_length_def rows_at_def split: if_splits)
  have "rows_at (p s) (map fst (bars s)) = Inr (map (\<lambda>i. p s ! i) (map fst (bars s)))"
       "rows_at (p s) (map snd (bars s)) = Inr (map (\<lambda>i. p s ! i) (map snd (bars s)))"
    using a b by (simp_all add: rows_at_def)
  with assms a b show ?thesis
    unfolding bar_length_def Let_def by (auto simp del: map_map)
qed

lemma bar_length_Inr:
  assumes "bar_length s = Inr (L, L0, bv)"
  shows "L = map (\<lambda>(a, b). spec_length (p s ! a) (p s ! b)) (bars s)"
    and "L0 = map (\<lambda>bar. spec_L0 s bar) (bars s)"
proof -
  note u = bar_length_unfold [OF assms]
  have bv: "bv = map (\<lambda>(a, b). vsub (p s ! a) (p s ! b)) (bars s)"
    using u by (simp add: zip_map_map zip_same_conv_map comp_def case_prod_unfold)
  with u show L': "L = map (\<lambda>(a, b). spec_length (p s ! a) (p s ! b)) (bars s)"
    by (simp add: dist_rows_def comp_def case_prod_unfold dist1_vsub)
  have h: "map (fh s) (map2 (\<lambda>a b. map (\<lambda>x. x / Fin 2) (vadd a b))
              (map (\<lambda>i. p s ! i) (map fst (bars s))) (map (\<lambda>i. p s ! i) (map snd (bars s))))
         = map (\<lambda>(a, b). fh s (spec_midpoint (p s ! a) (p s ! b))) (bars s)"
    by (simp add: zip_map_map zip_same_conv_map comp_def case_prod_unfold vadd_def spec_midpoint_def)
  have "L0 = map (\<lambda>h. h * Fscale s * fsqrt (fsum (map (\<lambda>l. l * l) L)
                 / fsum (map (\<lambda>h. h * h) (map (\<lambda>(a, b). fh s (spec_midpoint (p s ! a) (p s ! b))) (bars s)))))
               (map (\<lambda>(a, b). fh s (spec_midpoint (p s ! a) (p s ! b))) (bars s))"
    using u unfolding h by blast
  then show "L0 = map (\<lambda>bar. spec_L0 s bar) (bars s)"
    unfolding L' by (simp add: spec_L0_def comp_def case_prod_unfold)
qed

text \<open>
  C3. For a bar of a non-empty Bar Set, the desired length that \<open>bar_length\<close> returns is
  \<open>fh(midpoint) * Fscale * sqrt(sum of L^2 / sum of fh(midpoint)^2)\<close>, and the length it
  returns is the Euclidean length of the bar. The arithmetic is that of the array entries:
  a zero sum of \<open>fh(midpoint)^2\<close> gives an infinity or NaN on both sides.
\<close>

theorem bar_length_desired_length:
  assumes "bar_length s = Inr (L, L0, bv)" and "k < length (bars s)"
  shows "L0 ! k = spec_L0 s (bars s ! k)
       \<and> L ! k = spec_length (p s ! fst (bars s ! k)) (p s ! snd (bars s ! k))"
  using bar_length_Inr [OF assms(1)] assms(2) by (simp add: case_prod_unfold)


text \<open>The first bar of the rectangle: length 3, desired length 36/5.\<close>

theorem bar_length_desired_length_witness:
  "bar_length (rect34 0) = Inr (rect34_L, rect34_L0,
     [[Fin (- 3), Fin 0], [Fin 0, Fin (- 4)], [Fin (- 3), Fin (- 4)], [Fin 0, Fin (- 4)],
      [Fin (- 3), Fin 0]])
   \<and> bars (rect34 0) ! 0 = (0, 1)
   \<and> spec_L0 (rect34 0) (0, 1) = Fin (36/5)
   \<and> spec_length (p (rect34 0) ! 0) (p (rect34 0) ! 1) = Fin 3"
proof -
  have k: "0 < length (bars (rect34 0))" by (simp add: rect34_sel)
  show ?thesis
    using bar_length_desired_length [OF bar_length_rect34 k] bar_length_rect34 [of 0]
    by (simp add: rect34_sel rect34_L_def rect34_L0_def)
qed

section \<open>What the operations leave unchanged\<close>

lemma triangulate_fields:
  assumes "triangulate dl s = Inr s'"
  shows "fd s' = fd s" "geps s' = geps s" "p s' = p s" "pold s' = p s"
    "DISTMESH_delaunay dl (p s) (fd s) (geps s) = Inr (t s')"
  using triangulate_Inr [OF assms] by auto

lemma density_control_fields:
  assumes "density_control s L L0 = Inr s'"
  shows "fd s' = fd s" "geps s' = geps s" "length (pold s') = length (p s')"
  using density_control_Inr(3) [OF assms] by simp_all

lemma length_sub_where [simp]: "length (sub_where m qs vs) = length qs"
  by (induction m qs vs rule: sub_where.induct) simp_all

lemma move_p_fields:
  assumes "move_p pr s Ftot = Inr (s', c)"
  shows "fd s' = fd s" "geps s' = geps s" "pold s' = pold s" "length (p s') = length (p s)"
proof -
  have sh: "map length Ftot = map length (p s)"
    using assms by (simp add: move_p_def split: if_splits)
  then have len: "length (advance s Ftot) = length (p s)"
    using map_eq_imp_length_eq [OF sh] by (simp add: advance_def)
  from assms sh obtain p2 where s': "s' = s\<lparr>p := p2\<rparr>"
    and p2: "p2 = sub_where (map (\<lambda>v. Fin 0 < v) (map (fd s) (advance s Ftot))) (advance s Ftot)
                    (pr (fd s) (select (map (\<lambda>v. Fin 0 < v) (map (fd s) (advance s Ftot))) (advance s Ftot)))
             \<or> p2 = advance s Ftot"
    by (auto simp: move_p_def Let_def bindE_Inr_iff split: if_splits)
  show "fd s' = fd s" "geps s' = geps s" "pold s' = pold s" by (simp_all add: s')
  show "length (p s') = length (p s)" using p2 len by (auto simp: s')
qed

lemma iteration_fields:
  assumes "iteration dl pr i s = Inr (s', b)"
  shows "fd s' = fd s" "geps s' = geps s"
    "length (pold s) = length (p s) \<Longrightarrow> length (pold s') = length (p s')"
proof -
  from assms obtain r s1 L L0 bv where
    r: "is_retriangulate s = Inr r"
    and s1: "(if r then triangulate dl s else Inr s) = Inr s1"
    and bl: "bar_length s1 = Inr (L, L0, bv)"
    and rest: "(if densityctrlfreq s1 = 0 then Inl ZeroDivisionError
       else if int i mod densityctrlfreq s1 = 0 \<and> (\<exists>(l0, l)\<in>set (zip L0 L). Fin 2 * l < l0)
       then bindE (density_control s1 L L0) (\<lambda>s2. Inr (s2, False))
       else bindE (bar_force s1 L L0 bv) (\<lambda>Ftot. move_p pr s1 Ftot)) = Inr (s', b)"
    by (auto simp: iteration_def bindE_Inr_iff)
  have a1: "fd s1 = fd s \<and> geps s1 = geps s
     \<and> (length (pold s) = length (p s) \<longrightarrow> length (pold s1) = length (p s1))"
    using s1 triangulate_fields [of dl s s1] by (cases r) simp_all
  have a2: "fd s' = fd s1 \<and> geps s' = geps s1
     \<and> (length (pold s1) = length (p s1) \<longrightarrow> length (pold s') = length (p s'))"
    using rest density_control_fields [of s1 L L0 s'] move_p_fields [of pr s1 _ s' b]
    by (auto simp: bindE_Inr_iff split: if_splits)
  show "fd s' = fd s" "geps s' = geps s"
    "length (pold s) = length (p s) \<Longrightarrow> length (pold s') = length (p s')"
    using a1 a2 by simp_all
qed

lemma relax_fields:
  assumes "relax dl pr i k s = Inr s'"
  shows "fd s' = fd s \<and> geps s' = geps s
    \<and> (length (pold s) = length (p s) \<longrightarrow> length (pold s') = length (p s'))"
  using assms
proof (induction k arbitrary: i s)
  case 0
  then show ?case by simp
next
  case (Suc k)
  from Suc.prems obtain s1 b where it: "iteration dl pr i s = Inr (s1, b)"
    and rest: "(if b then Inr s1 else relax dl pr (Suc i) k s1) = Inr s'"
    by (auto split: sum.splits)
  show ?case
  proof (cases b)
    case True
    with rest iteration_fields [OF it] show ?thesis by simp
  next
    case False
    with rest have "relax dl pr (Suc i) k s1 = Inr s'" by simp
    from Suc.IH [OF this] iteration_fields [OF it] show ?thesis by simp
  qed
qed

lemma init_fields:
  assumes "DISTMESH_init dl rnd prm pf bb = Inr s"
  shows "fd s = fd prm" "geps s = Fin 0.001 * h0 prm" "pold s = p s"
proof -
  from assms obtain s0 where tr: "triangulate dl s0 = Inr s"
    and s0: "fd s0 = fd prm" "geps s0 = Fin 0.001 * h0 prm"
    by (auto simp: DISTMESH_init_def Let_def bindE_Inr_iff case_prod_unfold)
  show "fd s = fd prm" "geps s = Fin 0.001 * h0 prm" "pold s = p s"
    using triangulate_fields [OF tr] s0 by simp_all
qed

section \<open>The final retriangulation\<close>

text \<open>
  C2. Whatever ends the loop of \<open>build\<close> (a true convergence flag or the last of the
  \<open>maxiter\<close> passes), \<open>build\<close> retriangulates once more before it returns: the Simplex
  Set it returns is what \<open>_delaunay\<close> gives for the Point Set it returns, with the
  distance field and the tolerance \<open>geps = 0.001 * h0\<close> of the session.
\<close>

theorem build_returns_final_triangulation:
  assumes "build dl pr rnd prm pf bb maxiter = Inr (P, T)"
  shows "DISTMESH_delaunay dl P (fd prm) (Fin 0.001 * h0 prm) = Inr T"
proof -
  from assms obtain dm dm1 dm2 where
    i: "DISTMESH_init dl rnd prm pf bb = Inr dm"
    and r: "relax dl pr 0 (nat maxiter) dm = Inr dm1"
    and tr: "triangulate dl dm1 = Inr dm2" and res: "P = p dm2" "T = t dm2"
    unfolding build_def bindE_Inr_iff by auto
  have "fd dm1 = fd prm" "geps dm1 = Fin 0.001 * h0 prm"
    using relax_fields [OF r] init_fields [OF i] by simp_all
  with triangulate_fields [OF tr] res show ?thesis by simp
qed

section \<open>A run of build on three points\<close>

lemma eq_prm_sel: "fd (eq_prm c) = leftof c" "fh (eq_prm c) = uniform" "h0 (eq_prm c) = Fin 1"
  "densityctrlfreq (eq_prm c) = 30" "dptol (eq_prm c) = Fin (1/1000)" "ttol (eq_prm c) = Fin (1/10)"
  "Fscale (eq_prm c) = Fin (6/5)" "deltat (eq_prm c) = Fin (1/5)"
  by (simp_all add: eq_prm_def)

lemma eq_session_sel:
  "fd (eq_session c) = leftof c" "fh (eq_session c) = uniform" "h0 (eq_session c) = Fin 1"
  "densityctrlfreq (eq_session c) = 30" "dptol (eq_session c) = Fin (1/1000)"
  "ttol (eq_session c) = Fin (1/10)" "Fscale (eq_session c) = Fin (6/5)"
  "deltat (eq_session c) = Fin (1/5)" "geps (eq_session c) = Fin (1/1000)"
  "Ndim (eq_session c) = 2" "pfix (eq_session c) = [[Fin 1, Fin 0]]" "nfix (eq_session c) = 1"
  "N (eq_session c) = 3"
  "p (eq_session c) = [[Fin 1, Fin 0], [Fin 0, Fin 0], [Fin (1/2), Fin (sqrt 3 / 2)]]"
  "pold (eq_session c) = [[Fin 1, Fin 0], [Fin 0, Fin 0], [Fin (1/2), Fin (sqrt 3 / 2)]]"
  "edge_combinations (eq_session c) = [(0, 1), (0, 2), (1, 2)]"
  "bars (eq_session c) = [(0, 1), (0, 2), (1, 2)]" "t (eq_session c) = [[0, 1, 2]]"
  by (simp_all add: eq_session_def)

lemma bbox2d_eq: "bbox2d (Fin 1) eq_bbox = Inr [[Fin 0, Fin 0], [Fin (1 / 2), Fin (sqrt 3 / 2)]]"
  by (simp add: bbox2d_def eq_bbox_def item2_def item_def arange_def minus_npfloat_def upt_rec)

lemma shape1_eq: "shape1 eq_bbox = Inr 2"
  by (simp add: shape1_def eq_bbox_def)

lemma candidates_eq:
  assumes "1/2 + 1/1000 < c"
  shows "candidates (eq_prm c) (Some eq_bbox) = Inr (2, [[Fin 0, Fin 0], [Fin (1 / 2), Fin (sqrt 3 / 2)]])"
  using assms by (simp add: candidates_def shape1_eq bbox2d_eq eq_prm_sel leftof_def minus_npfloat_def)

lemma init_eq:
  assumes "1/2 + 1/1000 < c"
  shows "DISTMESH_init one_triangle half_rnd (eq_prm c) (Some [[Fin 1, Fin 0]]) (Some eq_bbox)
     = Inr (eq_session c)"
  using assms
  by (simp add: DISTMESH_init_def candidates_eq eq_prm_sel Let_def leftof_def uniform_def
     minus_npfloat_def select_def half_rnd_def dist1_def vsub_def fsum_def
     triangulate_def DISTMESH_delaunay_def one_triangle_def vmean_def combinations2_def np_unique_def
     numeral_2_eq_2 numeral_3_eq_3 eq_session_def)

lemma is_retriangulate_eq: "is_retriangulate (eq_session c) = Inr False"
  by (simp add: is_retriangulate_def eq_session_sel dist_rows_def dist1_def vsub_def fsum_def minus_npfloat_def)

lemma bar_length_eq: "bar_length (eq_session c) = Inr (eq_L, eq_L0, eq_barvec)"
  by (simp add: bar_length_def eq_session_sel rows_at_def vsub_def vadd_def dist_rows_def dist1_def
   fsum_def minus_npfloat_def uniform_def eq_L_def eq_L0_def eq_barvec_def)

lemma bar_force_eq: "bar_force (eq_session c) eq_L eq_L0 eq_barvec = Inr eq_Ftot"
  by (simp add: bar_force_def eq_session_sel eq_L_def eq_L0_def eq_barvec_def minus_npfloat_def
    fsum_def Let_def numeral_2_eq_2 numeral_3_eq_3 eq_Ftot_def)

lemma not_converged: "\<not> sqrt (3 / 625) * 1000 < 1"
proof -
  have "1 / 1000 \<le> sqrt (3 / 625)" by (rule real_le_rsqrt) (simp add: power2_eq_square)
  then show ?thesis by simp
qed

lemma move_p_eq_outside:
  "move_p (edge_project (Fin (1/1000))) (eq_session (3/4)) eq_Ftot
     = Inr (eq_session (3/4)\<lparr>p := eq_moved [Fin (3/4), Fin 0]\<rparr>, False)"
  by (simp add: move_p_def eq_session_sel eq_Ftot_def advance_def vadd_def leftof_def minus_npfloat_def
     select_def edge_project_def edge_grad_def vsub_def dist_rows_def dist1_def fsum_def Let_def
     not_converged eq_moved_def)

lemma move_p_eq_inside:
  "move_p (edge_project (Fin (1/1000))) (eq_session 2) eq_Ftot
     = Inr (eq_session 2\<lparr>p := eq_moved [Fin 1, Fin 0]\<rparr>, False)"
  by (simp add: move_p_def eq_session_sel eq_Ftot_def advance_def vadd_def leftof_def minus_npfloat_def
     select_def edge_project_def edge_grad_def vsub_def dist_rows_def dist1_def fsum_def Let_def
     not_converged eq_moved_def)

lemma iteration_eq_outside:
  "iteration one_triangle (edge_project (Fin (1/1000))) 0 (eq_session (3/4))
     = Inr (eq_session (3/4)\<lparr>p := eq_moved [Fin (3/4), Fin 0]\<rparr>, False)"
  by (simp add: iteration_def is_retriangulate_eq bar_length_eq bar_force_eq move_p_eq_outside)
     (simp add: eq_session_sel eq_L_def eq_L0_def)

lemma iteration_eq_inside:
  "iteration one_triangle (edge_project (Fin (1/1000))) 0 (eq_session 2)
     = Inr (eq_session 2\<lparr>p := eq_moved [Fin 1, Fin 0]\<rparr>, False)"
  by (simp add: iteration_def is_retriangulate_eq bar_length_eq bar_force_eq move_p_eq_inside)
     (simp add: eq_session_sel eq_L_def eq_L0_def)


lemma triangulate_eq_outside:
  "triangulate one_triangle (eq_session (3/4)\<lparr>p := eq_moved [Fin (3/4), Fin 0]\<rparr>)
     = Inr (eq_session (3/4)\<lparr>p := eq_moved [Fin (3/4), Fin 0], pold := eq_moved [Fin (3/4), Fin 0]\<rparr>)"
  by (simp add: triangulate_def DISTMESH_delaunay_def one_triangle_def eq_session_def eq_moved_def
      vmean_def leftof_def minus_npfloat_def fsum_def select_def np_unique_def Let_def)

lemma triangulate_eq_inside:
  "triangulate one_triangle (eq_session 2\<lparr>p := eq_moved [Fin 1, Fin 0]\<rparr>)
     = Inr (eq_session 2\<lparr>p := eq_moved [Fin 1, Fin 0], pold := eq_moved [Fin 1, Fin 0]\<rparr>)"
  by (simp add: triangulate_def DISTMESH_delaunay_def one_triangle_def eq_session_def eq_moved_def
      vmean_def leftof_def minus_npfloat_def fsum_def select_def np_unique_def Let_def)

lemma build_eq_inside:
  "build one_triangle (edge_project (Fin (1/1000))) half_rnd (eq_prm 2) (Some [[Fin 1, Fin 0]])
     (Some eq_bbox) 1 = Inr (eq_moved [Fin 1, Fin 0], [[0, 1, 2]])"
  by (simp add: build_def init_eq iteration_eq_inside triangulate_eq_inside)
     (simp add: eq_session_def)

text \<open>
  The run above ends with the last of its \<open>maxiter = 1\<close> passes; the simplices it
  returns are those of \<open>_delaunay\<close> on the points it returns.
\<close>

theorem build_returns_final_triangulation_witness:
  "build one_triangle (edge_project (Fin (1/1000))) half_rnd (eq_prm 2) (Some [[Fin 1, Fin 0]])
     (Some eq_bbox) 1 = Inr (eq_moved [Fin 1, Fin 0], [[0, 1, 2]])
   \<and> DISTMESH_delaunay one_triangle (eq_moved [Fin 1, Fin 0]) (fd (eq_prm 2))
         (Fin 0.001 * h0 (eq_prm 2)) = Inr [[0, 1, 2]]"
  using build_returns_final_triangulation [OF build_eq_inside] build_eq_inside by simp

section \<open>Fixed points\<close>

text \<open>
  What holds of the fixed rows: \<open>bar_force\<close> returns zero rows for them, a finite
  \<open>deltat\<close> times a zero row leaves a row where it is, and \<open>move_p\<close> leaves a fixed row
  unchanged when its distance-field value is not positive
  (\<open>density_control\<close> keeps the fixed rows: see C5).
\<close>

lemma bar_force_fixed_rows:
  assumes "bar_force s L L0 bv = Inr Ftot" "i < length (pfix s)" "i < N s"
  shows "Ftot ! i = replicate (Ndim s) (Fin 0)"
proof -
  from assms(1) obtain F where
    "Ftot = replicate (min (length (pfix s)) (N s)) (replicate (Ndim s) (Fin 0)) @ drop (length (pfix s)) F"
    by (auto simp: bar_force_def Let_def split: if_splits)
  with assms(2,3) show ?thesis by (simp add: nth_append)
qed

lemma plus_Fin_0 [simp]: "x + Fin 0 = x"
  by (cases x) simp_all

lemma times_Fin_0: "Fin dt * Fin 0 = Fin 0"
  by simp

lemma vadd_zero: "vadd q (replicate (length q) (Fin 0)) = q"
  by (induction q) (simp_all add: vadd_def)

lemma advance_fixed_rows:
  assumes "i < length (p s)" "i < length Ftot" "Ftot ! i = replicate (length (p s ! i)) (Fin 0)"
      and "deltat s = Fin dt"
  shows "advance s Ftot ! i = p s ! i"
  using assms by (simp add: advance_def vadd_zero)

lemma sub_where_nth:
  "i < length qs \<Longrightarrow> i < length m \<Longrightarrow> \<not> m ! i \<Longrightarrow> sub_where m qs vs ! i = qs ! i"
proof (induction m qs vs arbitrary: i rule: sub_where.induct)
  case (1 m q qs v vs)
  then show ?case by (cases i) simp_all
next
  case (2 m q qs vs)
  then show ?case by (cases i) simp_all
qed simp_all

lemma move_p_fixed_rows:
  assumes "move_p pr s Ftot = Inr (s', c)" "i < length (p s)"
      and "Ftot ! i = replicate (length (p s ! i)) (Fin 0)" "deltat s = Fin dt"
      and "\<not> Fin 0 < fd s (p s ! i)"
  shows "p s' ! i = p s ! i"
proof -
  have sh: "map length Ftot = map length (p s)"
    using assms(1) by (simp add: move_p_def split: if_splits)
  then have len: "length Ftot = length (p s)" by (rule map_eq_imp_length_eq)
  then have a: "advance s Ftot ! i = p s ! i" and la: "length (advance s Ftot) = length (p s)"
    using advance_fixed_rows [OF assms(2) _ assms(3,4)] assms(2) by (simp_all add: advance_def)
  define ix where "ix = map (\<lambda>v. Fin 0 < v) (map (fd s) (advance s Ftot))"
  have ni: "\<not> ix ! i" "i < length ix" using a la assms(2,5) by (simp_all add: ix_def)
  from assms(1) sh have "p s' = sub_where ix (advance s Ftot) (pr (fd s) (select ix (advance s Ftot)))
       \<or> p s' = advance s Ftot"
    by (auto simp: move_p_def Let_def bindE_Inr_iff ix_def split: if_splits)
  then show ?thesis
    using sub_where_nth [of i "advance s Ftot" ix] ni la a assms(2) by auto
qed

text \<open>
  C1. The claim is that the rows of the fixed points equal the caller's coordinates at
  every pass of the loop and in the result. \<open>bar_force\<close> zeroes their forces and
  \<open>density_control\<close> keeps them, but \<open>move_p\<close> projects every row whose distance-field
  value is positive, the fixed rows among them. In the run below the domain is the
  half-plane \<open>x \<le> 3/4\<close> and the fixed point (1, 0) lies outside it: the first pass moves it
  to (3/4, 0), and this is row 0 of the result.
\<close>

theorem fixed_point_displaced_by_projection:
  "build one_triangle (edge_project (Fin (1/1000))) half_rnd (eq_prm (3/4)) (Some [[Fin 1, Fin 0]])
     (Some eq_bbox) 1
   = Inr ([[Fin (3/4), Fin 0], [Fin (- (3 / 50)), Fin (- (sqrt 3 / 50))],
           [Fin (1 / 2), Fin (27 * sqrt 3 / 50)]], [[0, 1, 2]])"
  by (simp add: build_def init_eq iteration_eq_outside triangulate_eq_outside)
     (simp add: eq_session_def eq_moved_def)

section \<open>The snapshot pold\<close>

lemma sub_PInf: "x < PInf \<Longrightarrow> x - PInf = NInf"
  by (cases x) (simp_all add: minus_npfloat_def)

lemma vsub_replicate_PInf:
  "\<forall>x\<in>set q. x < PInf \<Longrightarrow> vsub q (replicate (length q) PInf) = replicate (length q) NInf"
  by (induction q) (simp_all add: vsub_def sub_PInf)

lemma foldl_plus_PInf: "foldl (+) PInf (replicate n PInf) = PInf"
  by (induction n) simp_all

lemma fsum_replicate_PInf: "0 < n \<Longrightarrow> fsum (replicate n PInf) = PInf"
  by (cases n) (simp_all add: fsum_def foldl_plus_PInf)

lemma dist1_minus_inf:
  assumes "q \<noteq> []" "\<forall>x\<in>set q. x < PInf"
  shows "dist1 (vsub q (replicate (length q) PInf)) = PInf"
  using assms by (simp add: dist1_def vsub_replicate_PInf fsum_replicate_PInf)

lemma dist_rows_minus_inf:
  assumes "0 < nd" "\<forall>q\<in>set ps. length q = nd \<and> (\<forall>x\<in>set q. x < PInf)"
  shows "dist_rows (map2 vsub ps (replicate (length ps) (replicate nd PInf)))
           = replicate (length ps) PInf"
  using assms(2)
proof (induction ps)
  case Nil
  then show ?case by (simp add: dist_rows_def)
next
  case (Cons q ps)
  then have "q \<noteq> []" "\<forall>x\<in>set q. x < PInf" "length q = nd" using assms(1) by auto
  from dist1_minus_inf [OF this(1,2)] this(3) Cons show ?case
    by (simp add: dist_rows_def)
qed

lemma foldl_maximum_PInf: "foldl maximum PInf (replicate n PInf) = PInf"
  by (induction n) simp_all

lemma np_max_replicate_PInf: "0 < n \<Longrightarrow> np_max (replicate n PInf) = Inr PInf"
  by (cases n) (simp_all add: foldl_maximum_PInf)

lemma map_length_rows: "\<forall>q\<in>set ps. length q = nd \<Longrightarrow> map length ps = replicate (length ps) nd"
  by (induction ps) simp_all

lemma is_retriangulate_inf:
  assumes "p s \<noteq> []" "0 < nd" "\<forall>q\<in>set (p s). length q = nd \<and> (\<forall>x\<in>set q. x < PInf)"
      and "pold s = replicate (length (p s)) (replicate nd PInf)" "h0 s * ttol s < PInf"
  shows "is_retriangulate s = Inr True"
proof -
  have "map length (p s) = map length (pold s)"
    using assms(3) by (simp add: assms(4) map_length_rows)
  moreover have "np_max (dist_rows (map2 vsub (p s) (pold s))) = Inr PInf"
    using assms(1) by (simp add: assms(4) dist_rows_minus_inf [OF assms(2,3)] np_max_replicate_PInf)
  ultimately show ?thesis using assms(5) by (simp add: is_retriangulate_def)
qed

lemma density_control_empty_raises:
  assumes "density_control s L L0 = Inr s'" "p s' = []"
  shows "is_retriangulate s' = Inl ValueError"
proof -
  have "length (pold s') = length (p s')"
    by (rule density_control_fields(3) [OF assms(1)])
  with assms(2) have "pold s' = []" by simp
  with assms(2) show ?thesis by (simp add: is_retriangulate_def dist_rows_def)
qed

text \<open>
  C6, as amended. After the constructor, \<open>triangulate\<close>, \<open>move_p\<close>, a whole pass of the
  loop and \<open>density_control\<close>, \<open>pold\<close> has as many rows as the Point Set (\<open>bar_length\<close>,
  \<open>bar_force\<close> and \<open>is_retriangulate\<close> change neither). \<open>density_control\<close> resizes the Point
  Set and sets every entry of \<open>pold\<close> to infinity; the \<open>is_retriangulate\<close> test that
  follows returns true when the resized Point Set is not empty, its rows have \<open>Ndim > 0\<close>
  entries, none of them \<open>+inf\<close> or NaN, and the threshold \<open>h0 * ttol\<close> is not \<open>+inf\<close> or
  NaN. When \<open>density_control\<close> has deleted every point, the test raises ValueError.
\<close>

theorem pold_rows_match_and_forced_retriangulation:
  "(DISTMESH_init dl rnd prm pf bb = Inr sa \<longrightarrow> length (pold sa) = length (p sa))
   \<and> (triangulate dl sb = Inr sb' \<longrightarrow> length (pold sb') = length (p sb'))
   \<and> (length (pold sc) = length (p sc) \<and> move_p pr sc Ftot = Inr (sc', cv)
        \<longrightarrow> length (pold sc') = length (p sc'))
   \<and> (length (pold se) = length (p se) \<and> iteration dl pr i se = Inr (se', brk)
        \<longrightarrow> length (pold se') = length (p se'))
   \<and> (density_control sd L L0 = Inr sd'
        \<longrightarrow> length (pold sd') = length (p sd')
           \<and> (p sd' \<noteq> [] \<and> 0 < Ndim sd
                \<and> (\<forall>q\<in>set (p sd'). length q = Ndim sd \<and> (\<forall>x\<in>set q. x < PInf))
                \<and> h0 sd * ttol sd < PInf
               \<longrightarrow> is_retriangulate sd' = Inr True))
   \<and> (density_control sf Lf Lf0 = Inr sf' \<and> p sf' = []
        \<longrightarrow> is_retriangulate sf' = Inl ValueError)"
proof (intro conjI impI)
  assume "DISTMESH_init dl rnd prm pf bb = Inr sa"
  from init_fields(3) [OF this] show "length (pold sa) = length (p sa)" by simp
next
  assume "triangulate dl sb = Inr sb'"
  from triangulate_fields(3,4) [OF this] show "length (pold sb') = length (p sb')" by simp
next
  assume "length (pold sc) = length (p sc) \<and> move_p pr sc Ftot = Inr (sc', cv)"
  then show "length (pold sc') = length (p sc')" using move_p_fields(3,4) [of pr sc Ftot sc' cv] by simp
next
  assume "length (pold se) = length (p se) \<and> iteration dl pr i se = Inr (se', brk)"
  then show "length (pold se') = length (p se')" using iteration_fields(3) [of dl pr i se se' brk] by simp
next
  assume "density_control sd L L0 = Inr sd'"
  from density_control_fields(3) [OF this] show "length (pold sd') = length (p sd')" .
next
  assume d: "density_control sd L L0 = Inr sd'"
    and h: "p sd' \<noteq> [] \<and> 0 < Ndim sd
                \<and> (\<forall>q\<in>set (p sd'). length q = Ndim sd \<and> (\<forall>x\<in>set q. x < PInf))
                \<and> h0 sd * ttol sd < PInf"
  note s' = density_control_Inr(3) [OF d]
  have "pold sd' = replicate (length (p sd')) (replicate (Ndim sd) PInf)"
    "h0 sd' = h0 sd" "ttol sd' = ttol sd"
    by (subst s', simp)+
  with h show "is_retriangulate sd' = Inr True"
    by (intro is_retriangulate_inf [where nd = "Ndim sd"]) simp_all
next
  assume "density_control sf Lf Lf0 = Inr sf' \<and> p sf' = []"
  then show "is_retriangulate sf' = Inl ValueError"
    using density_control_empty_raises by blast
qed


lemma density_keep_rect34_0: "density_keep (rect34 0) rect34_L rect34_L0 = []"
  by (simp add: density_keep_def density_ixdel_def setdiff1d_def np_unique_def select_def
      rect34_sel rect34_L_def rect34_L0_def upt_rec)

lemma density_control_rect34_0:
  "density_control (rect34 0) rect34_L rect34_L0 = Inr (rect34 0\<lparr>p := [], N := 0, pold := []\<rparr>)"
  by (simp add: density_control_def density_keep_rect34_0 rows_at_def rect34_sel rect34_L_length)

lemma bar_length_never:
  "bar_length rect34_never = Inr (rect34_L, rect34_L0,
     [[Fin (- 3), Fin 0], [Fin 0, Fin (- 4)], [Fin (- 3), Fin (- 4)], [Fin 0, Fin (- 4)],
      [Fin (- 3), Fin 0]])"
  by (simp add: bar_length_def rect34_never_def rect34_def rows_at_def vsub_def vadd_def
      dist_rows_def dist1_def fsum_def minus_npfloat_def band_def rect34_L_def rect34_L0_def)

lemma bar_length_far:
  "bar_length rect34_far = Inr (rect34_far_L, rect34_far_L0,
     [[PInf, Fin 0], [PInf, Fin (- 4)], [PInf, Fin (- 4)], [Fin 0, Fin (- 4)], [Fin (- 3), Fin 0]])"
  by (simp add: bar_length_def rect34_far_def rect34_def rows_at_def vsub_def vadd_def
      dist_rows_def dist1_def fsum_def minus_npfloat_def band_def rect34_far_L_def
      rect34_far_L0_def)

lemma rect34_never_sel:
  "bars rect34_never = [(0, 1), (0, 2), (0, 3), (1, 3), (2, 3)]"
  "p rect34_never = [[Fin 0, Fin 0], [Fin 3, Fin 0], [Fin 0, Fin 4], [Fin 3, Fin 4]]"
  "N rect34_never = 4" "nfix rect34_never = 2" "Ndim rect34_never = 2"
  "h0 rect34_never = Fin 1" "ttol rect34_never = PInf"
  by (simp_all add: rect34_never_def rect34_def)

lemma rect34_far_sel:
  "bars rect34_far = [(0, 1), (0, 2), (0, 3), (1, 3), (2, 3)]"
  "p rect34_far = [[PInf, Fin 0], [Fin 3, Fin 0], [Fin 0, Fin 4], [Fin 3, Fin 4]]"
  "N rect34_far = 4" "nfix rect34_far = 2" "Ndim rect34_far = 2"
  "h0 rect34_far = Fin 1" "ttol rect34_far = Fin (1/10)"
  by (simp_all add: rect34_far_def rect34_def)

lemma density_keep_never: "density_keep rect34_never rect34_L rect34_L0 = [0, 1]"
  by (simp add: density_keep_def density_ixdel_def setdiff1d_def np_unique_def select_def
      rect34_never_sel rect34_L_def rect34_L0_def upt_rec)

lemma density_keep_far: "density_keep rect34_far rect34_far_L rect34_far_L0 = [0, 1]"
  by (simp add: density_keep_def density_ixdel_def setdiff1d_def np_unique_def select_def
      rect34_far_sel rect34_far_L_def rect34_far_L0_def upt_rec)

lemma rect34_far_L_length: "length rect34_far_L = 5" "length rect34_far_L0 = 5"
  by (simp_all add: rect34_far_L_def rect34_far_L0_def)

lemma density_control_never:
  "density_control rect34_never rect34_L rect34_L0
     = Inr (rect34_never\<lparr>p := [[Fin 0, Fin 0], [Fin 3, Fin 0]], N := 2,
                          pold := [[PInf, PInf], [PInf, PInf]]\<rparr>)"
  by (simp add: density_control_def density_keep_never rows_at_def rect34_never_sel
      rect34_L_length) (simp add: numeral_2_eq_2)

lemma density_control_far:
  "density_control rect34_far rect34_far_L rect34_far_L0
     = Inr (rect34_far\<lparr>p := [[PInf, Fin 0], [Fin 3, Fin 0]], N := 2,
                        pold := [[PInf, PInf], [PInf, PInf]]\<rparr>)"
  by (simp add: density_control_def density_keep_far rows_at_def rect34_far_sel
      rect34_far_L_length) (simp add: numeral_2_eq_2)

lemma is_retriangulate_never:
  "is_retriangulate (rect34_never\<lparr>p := [[Fin 0, Fin 0], [Fin 3, Fin 0]], N := 2,
                          pold := [[PInf, PInf], [PInf, PInf]]\<rparr>) = Inr False"
  by (simp add: is_retriangulate_def dist_rows_def dist1_def vsub_def fsum_def minus_npfloat_def
      rect34_never_sel)

lemma is_retriangulate_far:
  "is_retriangulate (rect34_far\<lparr>p := [[PInf, Fin 0], [Fin 3, Fin 0]], N := 2,
                        pold := [[PInf, PInf], [PInf, PInf]]\<rparr>) = Inr False"
  by (simp add: is_retriangulate_def dist_rows_def dist1_def vsub_def fsum_def minus_npfloat_def
      rect34_far_sel)

text \<open>
  C6 as stated fails in three ways, each on the lengths that \<open>bar_length\<close> returns for the
  session. On \<open>rect34 0\<close> no point is fixed and the two flagged bars touch all four points:
  \<open>density_control\<close> deletes every point, and \<open>is_retriangulate\<close> raises on the maximum of
  an empty array. On \<open>rect34_never\<close> the threshold \<open>h0 * ttol\<close> is \<open>+inf\<close>, and on
  \<open>rect34_far\<close> a kept point has a coordinate \<open>+inf\<close>: \<open>is_retriangulate\<close> returns false
  after \<open>density_control\<close>.
\<close>

theorem forced_retriangulation_counterexample:
  "bar_length (rect34 0) = Inr (rect34_L, rect34_L0,
     [[Fin (- 3), Fin 0], [Fin 0, Fin (- 4)], [Fin (- 3), Fin (- 4)], [Fin 0, Fin (- 4)],
      [Fin (- 3), Fin 0]])
   \<and> density_control (rect34 0) rect34_L rect34_L0
       = Inr (rect34 0\<lparr>p := [], N := 0, pold := []\<rparr>)
   \<and> is_retriangulate (rect34 0\<lparr>p := [], N := 0, pold := []\<rparr>) = Inl ValueError
   \<and> bar_length rect34_never = Inr (rect34_L, rect34_L0,
     [[Fin (- 3), Fin 0], [Fin 0, Fin (- 4)], [Fin (- 3), Fin (- 4)], [Fin 0, Fin (- 4)],
      [Fin (- 3), Fin 0]])
   \<and> density_control rect34_never rect34_L rect34_L0
       = Inr (rect34_never\<lparr>p := [[Fin 0, Fin 0], [Fin 3, Fin 0]], N := 2,
                          pold := [[PInf, PInf], [PInf, PInf]]\<rparr>)
   \<and> is_retriangulate (rect34_never\<lparr>p := [[Fin 0, Fin 0], [Fin 3, Fin 0]], N := 2,
                          pold := [[PInf, PInf], [PInf, PInf]]\<rparr>) = Inr False
   \<and> bar_length rect34_far = Inr (rect34_far_L, rect34_far_L0,
     [[PInf, Fin 0], [PInf, Fin (- 4)], [PInf, Fin (- 4)], [Fin 0, Fin (- 4)], [Fin (- 3), Fin 0]])
   \<and> density_control rect34_far rect34_far_L rect34_far_L0
       = Inr (rect34_far\<lparr>p := [[PInf, Fin 0], [Fin 3, Fin 0]], N := 2,
                        pold := [[PInf, PInf], [PInf, PInf]]\<rparr>)
   \<and> is_retriangulate (rect34_far\<lparr>p := [[PInf, Fin 0], [Fin 3, Fin 0]], N := 2,
                        pold := [[PInf, PInf], [PInf, PInf]]\<rparr>) = Inr False"
proof -
  have "density_control (rect34 0) rect34_L rect34_L0
       = Inr (rect34 0\<lparr>p := [], N := 0, pold := []\<rparr>)"
    by (rule density_control_rect34_0)
  moreover have "is_retriangulate (rect34 0\<lparr>p := [], N := 0, pold := []\<rparr>) = Inl ValueError"
    by (simp add: is_retriangulate_def dist_rows_def)
  ultimately show ?thesis
    by (simp only: bar_length_rect34 bar_length_never bar_length_far density_control_never
        density_control_far is_retriangulate_never is_retriangulate_far simp_thms)
qed

text \<open>
  The operations of the run on three points, \<open>density_control\<close> on \<open>rect34 2\<close>, which
  keeps the two fixed points, and \<open>density_control\<close> on \<open>rect34 0\<close>, which keeps none.
\<close>

theorem pold_rows_match_and_forced_retriangulation_witness:
  "DISTMESH_init one_triangle half_rnd (eq_prm 2) (Some [[Fin 1, Fin 0]]) (Some eq_bbox)
     = Inr (eq_session 2)
   \<and> length (pold (eq_session 2)) = length (p (eq_session 2))
   \<and> triangulate one_triangle (eq_session 2\<lparr>p := eq_moved [Fin 1, Fin 0]\<rparr>)
     = Inr (eq_session 2\<lparr>p := eq_moved [Fin 1, Fin 0], pold := eq_moved [Fin 1, Fin 0]\<rparr>)
   \<and> move_p (edge_project (Fin (1/1000))) (eq_session 2) eq_Ftot
     = Inr (eq_session 2\<lparr>p := eq_moved [Fin 1, Fin 0]\<rparr>, False)
   \<and> iteration one_triangle (edge_project (Fin (1/1000))) 0 (eq_session 2)
     = Inr (eq_session 2\<lparr>p := eq_moved [Fin 1, Fin 0]\<rparr>, False)
   \<and> length (pold (eq_session 2\<lparr>p := eq_moved [Fin 1, Fin 0]\<rparr>))
     = length (p (eq_session 2\<lparr>p := eq_moved [Fin 1, Fin 0]\<rparr>))
   \<and> density_control (rect34 2) rect34_L rect34_L0
     = Inr (rect34 2\<lparr>p := [[Fin 0, Fin 0], [Fin 3, Fin 0]], N := 2,
                     pold := [[PInf, PInf], [PInf, PInf]]\<rparr>)
   \<and> is_retriangulate (rect34 2\<lparr>p := [[Fin 0, Fin 0], [Fin 3, Fin 0]], N := 2,
                                 pold := [[PInf, PInf], [PInf, PInf]]\<rparr>) = Inr True
   \<and> density_control (rect34 0) rect34_L rect34_L0
     = Inr (rect34 0\<lparr>p := [], N := 0, pold := []\<rparr>)
   \<and> p (rect34 0\<lparr>p := [], N := 0, pold := []\<rparr>) = []
   \<and> is_retriangulate (rect34 0\<lparr>p := [], N := 0, pold := []\<rparr>) = Inl ValueError"
proof -
  have i: "DISTMESH_init one_triangle half_rnd (eq_prm 2) (Some [[Fin 1, Fin 0]]) (Some eq_bbox)
     = Inr (eq_session 2)"
    by (rule init_eq) simp
  have l: "length (pold (eq_session 2)) = length (p (eq_session 2))"
    by (simp add: eq_session_sel)
  have h: "p (rect34 2\<lparr>p := [[Fin 0, Fin 0], [Fin 3, Fin 0]], N := 2,
                       pold := [[PInf, PInf], [PInf, PInf]]\<rparr>) \<noteq> []
     \<and> 0 < Ndim (rect34 2)
     \<and> (\<forall>q\<in>set (p (rect34 2\<lparr>p := [[Fin 0, Fin 0], [Fin 3, Fin 0]], N := 2,
                       pold := [[PInf, PInf], [PInf, PInf]]\<rparr>)).
           length q = Ndim (rect34 2) \<and> (\<forall>x\<in>set q. x < PInf))
     \<and> h0 (rect34 2) * ttol (rect34 2) < PInf"
    by (simp add: rect34_sel)
  show ?thesis
    using pold_rows_match_and_forced_retriangulation
      [where dl = one_triangle and rnd = half_rnd and prm = "eq_prm 2"
         and pf = "Some [[Fin 1, Fin 0]]" and bb = "Some eq_bbox" and sa = "eq_session 2"
         and sb = "eq_session 2\<lparr>p := eq_moved [Fin 1, Fin 0]\<rparr>"
         and sb' = "eq_session 2\<lparr>p := eq_moved [Fin 1, Fin 0], pold := eq_moved [Fin 1, Fin 0]\<rparr>"
         and sc = "eq_session 2" and pr = "edge_project (Fin (1/1000))" and Ftot = eq_Ftot
         and sc' = "eq_session 2\<lparr>p := eq_moved [Fin 1, Fin 0]\<rparr>" and cv = False
         and se = "eq_session 2" and i = 0
         and se' = "eq_session 2\<lparr>p := eq_moved [Fin 1, Fin 0]\<rparr>" and brk = False
         and sd = "rect34 2" and L = rect34_L and ?L0.0 = rect34_L0
         and sd' = "rect34 2\<lparr>p := [[Fin 0, Fin 0], [Fin 3, Fin 0]], N := 2,
                     pold := [[PInf, PInf], [PInf, PInf]]\<rparr>"
         and sf = "rect34 0" and Lf = rect34_L and ?Lf0.0 = rect34_L0
         and sf' = "rect34 0\<lparr>p := [], N := 0, pold := []\<rparr>"]
      i l h triangulate_eq_inside move_p_eq_inside iteration_eq_inside density_control_rect34_2
      density_control_rect34_0
    by simp
qed

section \<open>Randomness\<close>

text \<open>
  The constructor reads the random source in its rejection step only, one sample for each
  lattice point that the distance field keeps; no other operation of a session reads it.
\<close>

lemma init_cong_rnd:
  assumes "\<forall>nd p1. candidates prm bb = Inr (nd, p1) \<longrightarrow> (\<forall>i<length p1. rnd1 i = rnd2 i)"
  shows "DISTMESH_init dl rnd1 prm pf bb = DISTMESH_init dl rnd2 prm pf bb"
proof (cases "candidates prm bb")
  case (Inl e)
  then show ?thesis by (simp add: DISTMESH_init_def)
next
  case (Inr c)
  obtain nd p1 where c: "c = (nd, p1)" by (cases c)
  with Inr assms have "\<forall>i<length p1. rnd1 i = rnd2 i" by simp
  then have "map rnd1 [0..<length p1] = map rnd2 [0..<length p1]" by simp
  then show ?thesis
    unfolding DISTMESH_init_def Inr c by (simp only: bindE_simps prod.case)
qed

section \<open>Errors at construction\<close>

text \<open>
  C4, as amended. When the distance field keeps no lattice point, the constructor does
  not succeed: the rejection step takes the maximum of the empty array \<open>r0\<close> and raises
  ValueError, before the fixed points are looked at.
\<close>

theorem empty_candidates_init_fails:
  "candidates prm bb = Inr (nd, []) \<Longrightarrow> DISTMESH_init dl rnd prm pf bb = Inl ValueError"
  by (simp add: DISTMESH_init_def)

lemma candidates_eq_empty:
  assumes "c < - (1/1000)"
  shows "candidates (eq_prm c) (Some eq_bbox) = Inr (2, [])"
  using assms by (simp add: candidates_def shape1_eq bbox2d_eq eq_prm_sel leftof_def minus_npfloat_def)

text \<open>
  C4 as stated fails: with the domain \<open>x \<le> - 5\<close> no lattice point of the box is inside,
  and the constructor raises although three fixed points inside the domain were given.
\<close>

theorem init_empty_intersection_counterexample:
  "candidates (eq_prm (- 5)) (Some eq_bbox) = Inr (2, [])
   \<and> DISTMESH_init one_triangle half_rnd (eq_prm (- 5))
        (Some [[Fin (- 6), Fin 0], [Fin (- 7), Fin 0], [Fin (- 6), Fin 1]]) (Some eq_bbox)
      = Inl ValueError"
  by (simp add: DISTMESH_init_def candidates_eq_empty)

text \<open>The same domain and box without fixed points.\<close>

theorem empty_candidates_init_fails_witness:
  "candidates (eq_prm (- 5)) (Some eq_bbox) = Inr (2, [])
   \<and> DISTMESH_init one_triangle half_rnd (eq_prm (- 5)) None (Some eq_bbox) = Inl ValueError"
proof -
  have c: "candidates (eq_prm (- 5)) (Some eq_bbox) = Inr (2, [])"
    by (rule candidates_eq_empty) simp
  show ?thesis using empty_candidates_init_fails [OF c] c by simp
qed


lemma bbox2d_rev:
  "bbox2d (Fin (- 1)) rev_bbox = Inr [[Fin 1, Fin (sqrt 3)], [Fin (1 / 2), Fin (sqrt 3 / 2)]]"
  by (simp add: bbox2d_def rev_bbox_def item2_def item_def arange_def minus_npfloat_def upt_rec)

lemma shape1_rev: "shape1 rev_bbox = Inr 2"
  by (simp add: shape1_def rev_bbox_def)

lemma candidates_rev:
  "candidates neg_prm (Some rev_bbox)
     = Inr (2, [[Fin 1, Fin (sqrt 3)], [Fin (1 / 2), Fin (sqrt 3 / 2)]])"
  by (simp add: candidates_def shape1_rev bbox2d_rev neg_prm_def leftof_def minus_npfloat_def)

lemma neg_less_sqrt3: "- (1 / 1000) < sqrt 3"
  by (rule less_le_trans [of _ 0]) simp_all

text \<open>
  C8 as stated fails: the constructor checks nothing itself. With \<open>h0 = - 1\<close> and the
  corners of the box exchanged, \<open>np.arange\<close> counts down from the upper corner and the
  constructor returns a session.
\<close>

theorem negative_h0_accepted_counterexample:
  "h0 neg_prm = Fin (- 1)
   \<and> DISTMESH_init one_triangle half_rnd neg_prm (Some [[Fin 1, Fin 0]]) (Some rev_bbox)
       = Inr neg_session"
  apply (simp add: DISTMESH_init_def candidates_rev)
  apply (simp add: neg_prm_def Let_def leftof_def uniform_def
     minus_npfloat_def select_def half_rnd_def dist1_def vsub_def fsum_def
     triangulate_def DISTMESH_delaunay_def one_triangle_def vmean_def combinations2_def np_unique_def
     numeral_2_eq_2 numeral_3_eq_3 neg_session_def neg_less_sqrt3)
  done


lemma bindE_Inl_exI: "\<exists>e. r = Inl e \<Longrightarrow> \<exists>e. bindE r f = Inl e"
  by auto

lemma arange_zero_step: "arange a b (Fin 0) = Inl ZeroDivisionError"
  by (simp add: arange_def)

lemma bbox2d_zero_step: "\<exists>e. bbox2d (Fin 0) bbox = Inl e"
  by (cases "item2 bbox 0 0"; cases "item2 bbox 1 0") (simp_all add: bbox2d_def arange_zero_step)

lemma bbox3d_zero_step: "\<exists>e. bbox3d (Fin 0) bbox = Inl e"
  by (cases "item2 bbox 0 0"; cases "item2 bbox 1 0") (simp_all add: bbox3d_def arange_zero_step)

lemma candidates_zero_h0:
  assumes "h0 prm = Fin 0"
  shows "\<exists>e. candidates prm bb = Inl e"
proof (cases "shape1 (case bb of None \<Rightarrow> [[Fin (- 1), Fin (- 1)], [Fin 1, Fin 1]] | Some b \<Rightarrow> b)")
  case (Inl e)
  then show ?thesis by (simp add: candidates_def)
next
  case (Inr nd)
  obtain e2 e3 where
    "bbox2d (Fin 0) (case bb of None \<Rightarrow> [[Fin (- 1), Fin (- 1)], [Fin 1, Fin 1]] | Some b \<Rightarrow> b) = Inl e2"
    "bbox3d (Fin 0) (case bb of None \<Rightarrow> [[Fin (- 1), Fin (- 1)], [Fin 1, Fin 1]] | Some b \<Rightarrow> b) = Inl e3"
    using bbox2d_zero_step bbox3d_zero_step by metis
  with Inr show ?thesis by (simp add: candidates_def Let_def assms)
qed

lemma init_candidates_Inl: "candidates prm bb = Inl e \<Longrightarrow> DISTMESH_init dl rnd prm pf bb = Inl e"
  by (simp add: DISTMESH_init_def)

lemma arange_empty:
  assumes "h \<noteq> 0" "(b - a) / h \<le> 0"
  shows "arange (Fin a) (Fin b) (Fin h) = Inr []"
  using assms by (simp add: arange_def minus_npfloat_def)

lemma arange_finite: "s \<noteq> 0 \<Longrightarrow> \<exists>ys. arange (Fin a) (Fin b) (Fin s) = Inr ys"
  by (simp add: arange_def minus_npfloat_def)

lemma concat_map_Nil: "concat (map (\<lambda>i. []) xs) = []"
  by (induction xs) simp_all

lemma bbox2d_empty:
  assumes "h \<noteq> 0" "(x1 - x0) / h \<le> 0"
  shows "bbox2d (Fin h) [[Fin x0, Fin y0], [Fin x1, Fin y1]] = Inr []"
proof -
  have "h * sqrt 3 / 2 \<noteq> 0" using assms(1) by simp
  from arange_finite [OF this] obtain ys where
    "arange (Fin y0) (Fin y1) (Fin (h * sqrt 3 / 2)) = Inr ys" by blast
  then show ?thesis
    using assms(1) by (simp add: bbox2d_def item2_def item_def arange_empty [OF assms] concat_map_Nil)
qed

lemma candidates_empty_lattice:
  assumes "h0 prm = Fin h" "(h < 0 \<and> x0 \<le> x1) \<or> (0 < h \<and> x1 \<le> x0)"
  shows "candidates prm (Some [[Fin x0, Fin y0], [Fin x1, Fin y1]]) = Inr (2, [])"
proof -
  have "h \<noteq> 0" "(x1 - x0) / h \<le> 0"
    using assms(2) by (auto simp: divide_le_0_iff)
  from bbox2d_empty [OF this] show ?thesis
    by (simp add: candidates_def shape1_def assms(1))
qed

lemma build_init_Inl: "DISTMESH_init dl rnd prm pf bb = Inl e \<Longrightarrow> build dl pr rnd prm pf bb maxiter = Inl e"
  by (simp add: build_def)

text \<open>
  C8, as amended. The constructor raises where one of its numpy operations fails: on
  \<open>h0 = 0\<close> (\<open>np.arange\<close> with a zero step); on a lattice that is empty because \<open>h0\<close> is
  negative and the box ordered, or \<open>h0\<close> positive and the corners of the box exchanged; on
  an empty bounding box; and on an empty density evaluation. \<open>build\<close> does not retry: an
  error of the constructor is the result of \<open>build\<close>.
\<close>

theorem configuration_errors_at_construction:
  "(h0 prm1 = Fin 0 \<longrightarrow> (\<exists>e. DISTMESH_init dl rnd prm1 pf bb1 = Inl e))
   \<and> (h0 prm2 = Fin h \<and> ((h < 0 \<and> x0 \<le> x1) \<or> (0 < h \<and> x1 \<le> x0))
        \<longrightarrow> DISTMESH_init dl rnd prm2 pf (Some [[Fin x0, Fin y0], [Fin x1, Fin y1]]) = Inl ValueError)
   \<and> DISTMESH_init dl rnd prm3 pf (Some []) = Inl IndexError
   \<and> (candidates prm4 bb4 = Inr (nd, []) \<longrightarrow> DISTMESH_init dl rnd prm4 pf bb4 = Inl ValueError)
   \<and> (DISTMESH_init dl rnd prm5 pf bb5 = Inl e5 \<longrightarrow> build dl pr rnd prm5 pf bb5 maxiter = Inl e5)"
proof (intro conjI impI)
  assume "h0 prm1 = Fin 0"
  from candidates_zero_h0 [OF this, of bb1] show "\<exists>e. DISTMESH_init dl rnd prm1 pf bb1 = Inl e"
    using init_candidates_Inl by blast
next
  assume "h0 prm2 = Fin h \<and> ((h < 0 \<and> x0 \<le> x1) \<or> (0 < h \<and> x1 \<le> x0))"
  then have "candidates prm2 (Some [[Fin x0, Fin y0], [Fin x1, Fin y1]]) = Inr (2, [])"
    using candidates_empty_lattice by blast
  then show "DISTMESH_init dl rnd prm2 pf (Some [[Fin x0, Fin y0], [Fin x1, Fin y1]]) = Inl ValueError"
    by (simp add: DISTMESH_init_def)
next
  show "DISTMESH_init dl rnd prm3 pf (Some []) = Inl IndexError"
    by (simp add: DISTMESH_init_def candidates_def shape1_def)
next
  assume "candidates prm4 bb4 = Inr (nd, [])"
  then show "DISTMESH_init dl rnd prm4 pf bb4 = Inl ValueError"
    by (simp add: DISTMESH_init_def)
next
  assume "DISTMESH_init dl rnd prm5 pf bb5 = Inl e5"
  then show "build dl pr rnd prm5 pf bb5 maxiter = Inl e5" by (rule build_init_Inl)
qed


lemma init_zero_prm:
  "DISTMESH_init one_triangle half_rnd zero_prm (Some [[Fin 1, Fin 0]]) (Some eq_bbox)
     = Inl ZeroDivisionError"
  by (simp add: DISTMESH_init_def candidates_def Let_def shape1_def zero_prm_def bbox2d_def
      eq_bbox_def item2_def item_def arange_zero_step)

text \<open>
  A zero \<open>h0\<close>; \<open>h0 = - 1\<close> on the ordered box; an empty box; the domain \<open>x \<le> - 5\<close>, which
  keeps no lattice point, in the constructor and in \<open>build\<close>.
\<close>

theorem configuration_errors_at_construction_witness:
  "h0 zero_prm = Fin 0
   \<and> DISTMESH_init one_triangle half_rnd zero_prm (Some [[Fin 1, Fin 0]]) (Some eq_bbox)
       = Inl ZeroDivisionError
   \<and> h0 neg_prm = Fin (- 1)
   \<and> DISTMESH_init one_triangle half_rnd neg_prm (Some [[Fin 1, Fin 0]])
         (Some [[Fin 0, Fin 0], [Fin 1, Fin (sqrt 3)]]) = Inl ValueError
   \<and> DISTMESH_init one_triangle half_rnd (eq_prm 2) (Some [[Fin 1, Fin 0]]) (Some [])
       = Inl IndexError
   \<and> candidates (eq_prm (- 5)) (Some eq_bbox) = Inr (2, [])
   \<and> DISTMESH_init one_triangle half_rnd (eq_prm (- 5)) (Some [[Fin 1, Fin 0]]) (Some eq_bbox)
       = Inl ValueError
   \<and> build one_triangle (edge_project (Fin (1/1000))) half_rnd (eq_prm (- 5))
         (Some [[Fin 1, Fin 0]]) (Some eq_bbox) 500 = Inl ValueError"
proof -
  have z: "h0 zero_prm = Fin 0" and n: "h0 neg_prm = Fin (- 1)"
    by (simp_all add: zero_prm_def neg_prm_def)
  have c: "candidates (eq_prm (- 5)) (Some eq_bbox) = Inr (2, [])"
    by (rule candidates_eq_empty) simp
  have o: "((- 1 :: real) < 0 \<and> (0 :: real) \<le> 1) \<or> ((0 :: real) < - 1 \<and> (1 :: real) \<le> 0)"
    by simp
  note th = configuration_errors_at_construction
      [where ?prm1.0 = zero_prm and ?bb1.0 = "Some eq_bbox" and dl = one_triangle and rnd = half_rnd
         and pf = "Some [[Fin 1, Fin 0]]" and ?prm2.0 = neg_prm and h = "- 1"
         and ?x0.0 = 0 and ?y0.0 = 0 and ?x1.0 = 1 and ?y1.0 = "sqrt 3"
         and ?prm3.0 = "eq_prm 2" and ?prm4.0 = "eq_prm (- 5)" and ?bb4.0 = "Some eq_bbox" and nd = 2
         and ?prm5.0 = "eq_prm (- 5)" and ?bb5.0 = "Some eq_bbox" and ?e5.0 = ValueError
         and pr = "edge_project (Fin (1/1000))" and maxiter = 500]
  show ?thesis
    using th z n c o init_zero_prm by simp
qed

end
